theory Spec2Isabelle
  imports Main "HOL-Library.Sublist" "HOL-Library.Word"
begin

section \<open>JavaScript strings and values\<close>

text \<open>
  A JavaScript string is a sequence of UTF-16 code units. The model keeps the code units
  below 256 (the Latin-1 range), one \<^typ>\<open>char\<close> each, so \<open>length\<close> is
  \<^verbatim>\<open>.length\<close> and \<open>take\<close> is \<^verbatim>\<open>.substring(0, n)\<close>.
\<close>

definition isUpperUnit :: "char \<Rightarrow> bool" where
  "isUpperUnit c =
     (let n = (of_char c :: nat)
      in (65 \<le> n \<and> n \<le> 90) \<or> (192 \<le> n \<and> n \<le> 222 \<and> n \<noteq> 215))"

text \<open>
  \<^verbatim>\<open>String.prototype.toLowerCase\<close> on one code unit: \<open>A\<close>..\<open>Z\<close> and the
  Latin-1 capitals (0xC0..0xDE without the multiplication sign 0xD7) move up by 0x20,
  which sets bit 5.
\<close>

definition toLowerUnit :: "char \<Rightarrow> char" where
  "toLowerUnit c =
     (if isUpperUnit c
      then (case c of Char b0 b1 b2 b3 b4 b5 b6 b7 \<Rightarrow> Char b0 b1 b2 b3 b4 True b6 b7)
      else c)"

definition toLowerCase :: "string \<Rightarrow> string" where
  "toLowerCase s = map toLowerUnit s"

text \<open>\<^verbatim>\<open>s.includes(p)\<close>: \<open>p\<close> occurs in \<open>s\<close> as a contiguous substring.\<close>

fun str_includes :: "string \<Rightarrow> string \<Rightarrow> bool" where
  "str_includes [] p = (p = [])"
| "str_includes (c # cs) p = (prefix p (c # cs) \<or> str_includes cs p)"

text \<open>
  The white space of \<^verbatim>\<open>\s\<close> and of \<^verbatim>\<open>String.prototype.trim\<close> among the
  code units below 256: TAB, LF, VT, FF, CR, SPACE and NBSP.
\<close>

definition isWhiteSpace :: "char \<Rightarrow> bool" where
  "isWhiteSpace c = ((of_char c :: nat) \<in> {9, 10, 11, 12, 13, 32, 160})"

definition trim :: "string \<Rightarrow> string" where
  "trim s = rev (dropWhile isWhiteSpace (rev (dropWhile isWhiteSpace s)))"

text \<open>
  Case folding of the regular expressions' \<^verbatim>\<open>i\<close> flag against a pattern of ASCII
  characters: only the ASCII letters fold.
\<close>

definition asciiLower :: "char \<Rightarrow> char" where
  "asciiLower c =
     (let n = (of_char c :: nat)
      in if 65 \<le> n \<and> n \<le> 90
         then (case c of Char b0 b1 b2 b3 b4 b5 b6 b7 \<Rightarrow> Char b0 b1 b2 b3 b4 True b6 b7)
         else c)"

text \<open>
  \<open>ci_prefix p s\<close>: the text \<open>s\<close> starts with the lower-case ASCII pattern \<open>p\<close>,
  ignoring case; the result is the rest of the text.
\<close>

fun ci_prefix :: "string \<Rightarrow> string \<Rightarrow> string option" where
  "ci_prefix [] s = Some s"
| "ci_prefix (p # ps) [] = None"
| "ci_prefix (p # ps) (c # cs) = (if asciiLower c = p then ci_prefix ps cs else None)"

text \<open>\<^verbatim>\<open>s.split(sep)\<close> for a separator of one code unit.\<close>

fun split :: "char \<Rightarrow> string \<Rightarrow> string list" where
  "split sep [] = [[]]"
| "split sep (c # cs) =
     (if c = sep then [] # split sep cs
      else (case split sep cs of [] \<Rightarrow> [[c]] | w # ws \<Rightarrow> (c # w) # ws))"

text \<open>\<^verbatim>\<open>xs.join(sep)\<close> on strings.\<close>

fun join :: "string \<Rightarrow> string list \<Rightarrow> string" where
  "join sep [] = []"
| "join sep [x] = x"
| "join sep (x # y # ys) = x @ sep @ join sep (y # ys)"

text \<open>
  What the code throws. The messages of \<open>TypeError\<close> and \<open>SyntaxError\<close> are the
  engine's; \<open>Error\<close> carries the message the code (or a collaborator) gives.
\<close>

datatype error = TypeError | SyntaxError | Error string

section \<open>Content items (types.ts)\<close>

datatype itemType = image | pdf | url | video

datatype videoPlatform = tiktok | instagram

datatype payload = Buffer "8 word list" | Text string

record ContentItem =
  type :: itemType
  data :: payload
  mimeType :: "string option"
  filename :: "string option"
  platform :: "videoPlatform option"

section \<open>email-parser.ts\<close>

definition SUPPORTED_IMAGE_TYPES :: "string list" where
  "SUPPORTED_IMAGE_TYPES =
     [''image/jpeg'', ''image/jpg'', ''image/png'', ''image/gif'', ''image/webp'',
      ''image/heic'', ''image/heif'']"

definition PDF_MIME_TYPE :: string where
  "PDF_MIME_TYPE = ''application/pdf''"

definition RECIPE_DOMAINS :: "string list" where
  "RECIPE_DOMAINS =
     [''allrecipes.com'', ''foodnetwork.com'', ''epicurious.com'', ''bonappetit.com'',
      ''seriouseats.com'', ''simplyrecipes.com'', ''budgetbytes.com'', ''delish.com'',
      ''tasty.co'', ''food52.com'', ''cookinglight.com'', ''myrecipes.com'',
      ''tasteofhome.com'', ''kingarthurbaking.com'', ''smittenkitchen.com'',
      ''minimalistbaker.com'', ''thekitchn.com'', ''recipetineats.com'',
      ''halfbakedharvest.com'', ''pinchofyum.com'', ''damndelicious.net'',
      ''therecipecritic.com'', ''gimmesomeoven.com'', ''cafedelites.com'',
      ''hostthetoast.com'', ''skinnytaste.com'', ''wellplated.com'', ''cookieandkate.com'',
      ''loveandlemons.com'']"

record ParsedEmailContent =
  images :: "ContentItem list"
  pdfs :: "ContentItem list"
  urls :: "ContentItem list"
  videos :: "ContentItem list"

subsection \<open>The parsed message\<close>

text \<open>
  What the MIME library hands back, as far as \<^verbatim>\<open>parseEmailContent\<close> reads it. The
  library itself is a collaborator: it is a parameter \<open>mime\<close> of the model, from the raw
  message (a string, or the bytes read from the stream) to the parsed message or the
  error it throws.
\<close>

record attachment =
  att_mimeType :: "string option"
  att_filename :: "string option"
  att_content :: payload

record email =
  email_text :: "string option"
  email_html :: "string option"
  attachments :: "attachment list option"

datatype rawEmail = RawString string | RawStream "8 word list list"

type_synonym mimeParser = "string + 8 word list \<Rightarrow> error + email"

text \<open>\<^verbatim>\<open>new TextEncoder().encode(s)\<close>: UTF-8, for code units below 256.\<close>

definition encodeUnit :: "char \<Rightarrow> 8 word list" where
  "encodeUnit c =
     (let n = (of_char c :: nat)
      in if n < 128 then [of_nat n] else [of_nat (192 + n div 64), of_nat (128 + n mod 64)])"

definition encode :: "string \<Rightarrow> 8 word list" where
  "encode s = concat (map encodeUnit s)"

subsection \<open>The URL pattern\<close>

text \<open>
  The class \<^verbatim>\<open>[^\s<>"{}|\\^`\[\]]\<close> of \<^verbatim>\<open>URL_PATTERN\<close>.
\<close>

definition urlChar :: "char \<Rightarrow> bool" where
  \<open>urlChar c = (\<not> isWhiteSpace c \<and> c \<notin> set ''<>"{}|^`[]'' \<and> c \<noteq> CHR 0x5C)\<close>

text \<open>\<^verbatim>\<open>https?:\/\/\<close> with the \<^verbatim>\<open>i\<close> flag; the result is the text after it.\<close>

definition match_scheme :: "string \<Rightarrow> string option" where
  "match_scheme s =
     (case ci_prefix ''http'' s of
        None \<Rightarrow> None
      | Some r \<Rightarrow>
          (case ci_prefix ''s'' r of
             None \<Rightarrow> ci_prefix ''://'' r
           | Some r' \<Rightarrow>
               (case ci_prefix ''://'' r' of
                  Some r'' \<Rightarrow> Some r''
                | None \<Rightarrow> ci_prefix ''://'' r)))"

lemma ci_prefix_length: "ci_prefix p s = Some r \<Longrightarrow> length s = length p + length r"
  by (induction p s rule: ci_prefix.induct) (auto split: if_splits)

lemma match_scheme_length: "match_scheme s = Some r \<Longrightarrow> length r < length s"
  by (auto simp: match_scheme_def split: option.splits dest!: ci_prefix_length)

text \<open>
  \<^verbatim>\<open>bodyText.match(URL_PATTERN) || []\<close> with the \<^verbatim>\<open>g\<close> flag: every match, left to
  right; after a match the scan goes on behind it, after a failure one code unit
  further.
\<close>

function match_URL_PATTERN :: "string \<Rightarrow> string list" where
  "match_URL_PATTERN s =
     (if s = [] then []
      else (case match_scheme s of
              None \<Rightarrow> match_URL_PATTERN (tl s)
            | Some rest \<Rightarrow>
                (let run = takeWhile urlChar rest
                 in if run = [] then match_URL_PATTERN (tl s)
                    else take (length s - length rest + length run) s
                           # match_URL_PATTERN (dropWhile urlChar rest))))"
  by pat_completeness auto
termination
proof (relation "measure length")
  show "wf (measure length)" by simp
next
  fix s :: string
  assume "s \<noteq> []"
  then show "(tl s, s) \<in> measure length" by (cases s) auto
next
  fix s rest :: string
  assume "s \<noteq> []"
  then show "(tl s, s) \<in> measure length" by (cases s) auto
next
  fix s rest run :: string
  assume "match_scheme s = Some rest"
  then have "length rest < length s" by (rule match_scheme_length)
  moreover have "length (dropWhile urlChar rest) \<le> length rest"
    by (rule length_dropWhile_le)
  ultimately show "(dropWhile urlChar rest, s) \<in> measure length" by simp
qed

declare match_URL_PATTERN.simps [simp del]

text \<open>\<^verbatim>\<open>url.replace(/[.,;:!?)\]]+$/, '')\<close>: the trailing punctuation goes.\<close>

definition trailingPunct :: "char \<Rightarrow> bool" where
  "trailingPunct c = (c \<in> set ''.,;:!?)]'')"

definition cleanUrl :: "string \<Rightarrow> string" where
  "cleanUrl u = rev (dropWhile trailingPunct (rev u))"

subsection \<open>Classification\<close>

definition detectVideoPlatform :: "string \<Rightarrow> videoPlatform option" where
  "detectVideoPlatform u =
     (let lowerUrl = toLowerCase u
      in if str_includes lowerUrl ''tiktok.com'' \<or> str_includes lowerUrl ''vm.tiktok.com''
         then Some tiktok
         else if str_includes lowerUrl ''instagram.com/reel/'' \<or>
                 str_includes lowerUrl ''instagram.com/p/'' \<or>
                 str_includes lowerUrl ''instagram.com/tv/''
         then Some instagram
         else None)"

definition skipPatterns :: "string list" where
  "skipPatterns =
     [''unsubscribe'', ''mailto:'', ''javascript:'', ''facebook.com'', ''twitter.com'',
      ''instagram.com'', ''pinterest.com'', ''youtube.com'', ''tiktok.com'',
      ''linkedin.com'', ''apple.com'', ''google.com/search'', ''amazon.com'', ''.css'',
      ''.js'', ''.png'', ''.jpg'', ''.gif'', ''privacy'', ''terms'', ''login'', ''signup'',
      ''cart'', ''checkout'']"

definition recipeKeywords :: "string list" where
  "recipeKeywords = [''recipe'', ''cook'', ''bake'', ''food'', ''dish'', ''meal'', ''ingredient'']"

text \<open>
  \<^verbatim>\<open>new URL(url).pathname\<close> is the platform's: the parameter \<open>pathname\<close> gives the
  path of a URL, or \<open>None\<close> where the constructor throws its \<open>TypeError\<close> (a string
  that is no valid URL). \<^verbatim>\<open>isLikelyRecipeUrl\<close> does not catch it.
\<close>

definition isLikelyRecipeUrl :: "(string \<Rightarrow> string option) \<Rightarrow> string \<Rightarrow> error + bool" where
  "isLikelyRecipeUrl pathname u =
     (let lowerUrl = toLowerCase u
      in if list_ex (str_includes lowerUrl) skipPatterns then Inr False
         else if list_ex (str_includes lowerUrl) RECIPE_DOMAINS then Inr True
         else if list_ex (str_includes lowerUrl) recipeKeywords then Inr True
         else (case pathname u of
                 None \<Rightarrow> Inl TypeError
               | Some p \<Rightarrow>
                   (let urlParts = filter (\<lambda>w. w \<noteq> []) (split CHR ''/'' p)
                    in Inr (length urlParts \<ge> 1))))"

subsection \<open>parseEmailContent\<close>

text \<open>The loop over the attachments; the state is the two buckets.\<close>

fun attachmentLoop ::
  "attachment list \<Rightarrow> ContentItem list \<times> ContentItem list \<Rightarrow> ContentItem list \<times> ContentItem list"
where
  "attachmentLoop [] st = st"
| "attachmentLoop (a # as) (imgs, ps) =
     (let mt = (case att_mimeType a of None \<Rightarrow> [] | Some m \<Rightarrow> toLowerCase m);
          content = (case att_content a of Text s \<Rightarrow> Buffer (encode s) | Buffer b \<Rightarrow> Buffer b);
          imgs' = (if mt \<in> set SUPPORTED_IMAGE_TYPES
                   then imgs @ [\<lparr>type = image, data = content, mimeType = Some mt,
                                 filename = Some (case att_filename a of
                                                    None \<Rightarrow> ''image''
                                                  | Some f \<Rightarrow> if f = [] then ''image'' else f),
                                 platform = None\<rparr>]
                   else imgs);
          ps' = (if mt = PDF_MIME_TYPE
                 then ps @ [\<lparr>type = pdf, data = content, mimeType = Some mt,
                             filename = Some (case att_filename a of
                                                None \<Rightarrow> ''document.pdf''
                                              | Some f \<Rightarrow> if f = [] then ''document.pdf'' else f),
                             platform = None\<rparr>]
                 else ps)
      in attachmentLoop as (imgs', ps'))"

definition videoItem :: "string \<Rightarrow> videoPlatform \<Rightarrow> ContentItem" where
  "videoItem u p =
     \<lparr>type = video, data = Text u, mimeType = None, filename = None, platform = Some p\<rparr>"

definition urlItem :: "string \<Rightarrow> ContentItem" where
  "urlItem u = \<lparr>type = url, data = Text u, mimeType = None, filename = None, platform = None\<rparr>"

text \<open>
  The loop over the matches; the state is \<^verbatim>\<open>seenUrls\<close> and the two buckets
  \<^verbatim>\<open>videos\<close> and \<^verbatim>\<open>urls\<close>. A throw of \<^verbatim>\<open>isLikelyRecipeUrl\<close> leaves the loop.
\<close>

fun urlLoop ::
  "(string \<Rightarrow> string option) \<Rightarrow> string list \<Rightarrow>
   string list \<times> ContentItem list \<times> ContentItem list \<Rightarrow>
   error + string list \<times> ContentItem list \<times> ContentItem list"
where
  "urlLoop pathname [] st = Inr st"
| "urlLoop pathname (u # rest) (seenUrls, vs, us) =
     (let c = cleanUrl u
      in if c \<in> set seenUrls then urlLoop pathname rest (seenUrls, vs, us)
         else (case detectVideoPlatform c of
                 Some p \<Rightarrow> urlLoop pathname rest (seenUrls @ [c], vs @ [videoItem c p], us)
               | None \<Rightarrow>
                   (case isLikelyRecipeUrl pathname c of
                      Inl e \<Rightarrow> Inl e
                    | Inr b \<Rightarrow>
                        urlLoop pathname rest
                          (seenUrls @ [c], vs, if b then us @ [urlItem c] else us))))"

definition bodyText :: "email \<Rightarrow> string" where
  "bodyText e =
     (case email_text e of None \<Rightarrow> [] | Some t \<Rightarrow> t) @ '' '' @ (case email_html e of None \<Rightarrow> [] | Some h \<Rightarrow> h)"

text \<open>What goes to the MIME library: the string, or the chunks of the stream combined.\<close>

definition parserInput :: "rawEmail \<Rightarrow> string + 8 word list" where
  "parserInput raw = (case raw of RawString s \<Rightarrow> Inl s | RawStream chunks \<Rightarrow> Inr (concat chunks))"

definition parseEmailContent ::
  "(string \<Rightarrow> string option) \<Rightarrow> mimeParser \<Rightarrow> rawEmail \<Rightarrow> error + ParsedEmailContent"
where
  "parseEmailContent pathname mime raw =
     (case mime (parserInput raw) of
        Inl e \<Rightarrow> Inl e
      | Inr e \<Rightarrow>
          (let (imgs, ps) = (case attachments e of
                               None \<Rightarrow> ([], [])
                             | Some as \<Rightarrow> attachmentLoop as ([], []));
               foundUrls = match_URL_PATTERN (bodyText e)
           in (case urlLoop pathname foundUrls ([], [], []) of
                 Inl err \<Rightarrow> Inl err
               | Inr (seenUrls, vs, us) \<Rightarrow>
                   Inr \<lparr>images = imgs, pdfs = ps, urls = us, videos = vs\<rparr>)))"

section \<open>JavaScript values\<close>

text \<open>
  The values \<^verbatim>\<open>JSON.parse\<close> builds. The type \<open>'n\<close> is the platform's numbers
  (IEEE doubles); the model reads a number only through the platform's conversions
  to string and to boolean. \<^verbatim>\<open>undefined\<close> is the \<open>None\<close> of an option.
\<close>

datatype 'n json =
  JNull | JBool bool | JNum 'n | JStr string | JArr "'n json list" | JObj "(string \<times> 'n json) list"

text \<open>
  The built-ins the code calls: \<^verbatim>\<open>String(n)\<close> and \<^verbatim>\<open>Boolean(n)\<close> of a parsed
  number, \<^verbatim>\<open>String(parseInt(ds))\<close> where the digits \<open>ds\<close> denote \<open>2\<^sup>5\<^sup>3\<close> or more
  (no longer the digits themselves), and \<^verbatim>\<open>JSON.parse\<close> (\<open>None\<close>: it throws its
  \<open>SyntaxError\<close>).
\<close>

record 'n platform =
  numberToString :: "'n \<Rightarrow> string"
  numberToBoolean :: "'n \<Rightarrow> bool"
  largeToString :: "nat \<Rightarrow> string"
  JSON_parse :: "string \<Rightarrow> 'n json option"

definition bindE :: "error + 'a \<Rightarrow> ('a \<Rightarrow> error + 'b) \<Rightarrow> error + 'b" where
  "bindE m f = (case m of Inl e \<Rightarrow> Inl e | Inr x \<Rightarrow> f x)"

lemma bindE_cong [fundef_cong]:
  "m = m' \<Longrightarrow> (\<And>x. m' = Inr x \<Longrightarrow> f x = f' x) \<Longrightarrow> bindE m f = bindE m' f'"
  by (auto simp: bindE_def split: sum.splits)

text \<open>\<open>mapE f xs\<close>: \<open>f\<close> on every element, left to right, up to the first throw.\<close>

fun mapE :: "('a \<Rightarrow> error + 'b) \<Rightarrow> 'a list \<Rightarrow> error + 'b list" where
  "mapE f [] = Inr []"
| "mapE f (x # xs) = bindE (f x) (\<lambda>y. bindE (mapE f xs) (\<lambda>ys. Inr (y # ys)))"

lemma mapE_cong [fundef_cong]:
  "xs = ys \<Longrightarrow> (\<And>x. x \<in> set ys \<Longrightarrow> f x = g x) \<Longrightarrow> mapE f xs = mapE g ys"
  by (induction ys arbitrary: xs) (auto simp: bindE_def)

text \<open>\<^verbatim>\<open>Boolean(v)\<close>, the test of \<^verbatim>\<open>v || d\<close>, \<^verbatim>\<open>!v\<close> and \<^verbatim>\<open>if (v)\<close>.\<close>

fun truthy :: "'n platform \<Rightarrow> 'n json option \<Rightarrow> bool" where
  "truthy pl None = False"
| "truthy pl (Some JNull) = False"
| "truthy pl (Some (JBool b)) = b"
| "truthy pl (Some (JNum n)) = numberToBoolean pl n"
| "truthy pl (Some (JStr s)) = (s \<noteq> [])"
| "truthy pl (Some (JArr xs)) = True"
| "truthy pl (Some (JObj kvs)) = True"

text \<open>
  \<^verbatim>\<open>String(v)\<close> and the conversion of a template literal, on a parsed value. An array
  joins its elements with a comma, \<^verbatim>\<open>null\<close> elements as the empty string. An object
  is \<^verbatim>\<open>[object Object]\<close>, unless it has a key \<^verbatim>\<open>toString\<close> of its own: a parsed
  value is not callable, and the conversion throws a \<open>TypeError\<close>.
\<close>

fun toStr :: "'n platform \<Rightarrow> 'n json \<Rightarrow> error + string" where
  "toStr pl JNull = Inr ''null''"
| "toStr pl (JBool b) = Inr (if b then ''true'' else ''false'')"
| "toStr pl (JNum n) = Inr (numberToString pl n)"
| "toStr pl (JStr s) = Inr s"
| "toStr pl (JArr xs) =
     bindE (mapE (\<lambda>x. if x = JNull then Inr [] else toStr pl x) xs) (\<lambda>ss. Inr (join '','' ss))"
| "toStr pl (JObj kvs) =
     (if ''toString'' \<in> fst ` set kvs then Inl TypeError else Inr ''[object Object]'')"

definition ToString :: "'n platform \<Rightarrow> 'n json option \<Rightarrow> error + string" where
  "ToString pl v = (case v of None \<Rightarrow> Inr ''undefined'' | Some x \<Rightarrow> toStr pl x)"

text \<open>\<^verbatim>\<open>xs.join(sep)\<close> on an array of values: \<^verbatim>\<open>null\<close> is the empty string.\<close>

definition joinValues :: "'n platform \<Rightarrow> string \<Rightarrow> 'n json list \<Rightarrow> error + string" where
  "joinValues pl sep xs =
     bindE (mapE (\<lambda>x. if x = JNull then Inr [] else toStr pl x) xs) (\<lambda>ss. Inr (join sep ss))"

text \<open>
  \<^verbatim>\<open>v[k]\<close> for the keys the code reads (none of them is a property of a prototype):
  a key of an object, \<^verbatim>\<open>undefined\<close> on any other value but \<^verbatim>\<open>null\<close>, where the
  access throws.
\<close>

definition getProp :: "'n json \<Rightarrow> string \<Rightarrow> error + 'n json option" where
  "getProp v k = (case v of JNull \<Rightarrow> Inl TypeError | JObj kvs \<Rightarrow> Inr (map_of kvs k) | _ \<Rightarrow> Inr None)"

text \<open>\<^verbatim>\<open>v?.[k]\<close> on a value or \<^verbatim>\<open>undefined\<close>.\<close>

definition optProp :: "'n json option \<Rightarrow> string \<Rightarrow> 'n json option" where
  "optProp v k = (case v of Some (JObj kvs) \<Rightarrow> map_of kvs k | _ \<Rightarrow> None)"

text \<open>The digits of a number below \<open>2\<^sup>5\<^sup>3\<close>, as \<^verbatim>\<open>String\<close> prints it.\<close>

function natToString :: "nat \<Rightarrow> string" where
  "natToString n =
     (if n < 10 then [''0123456789'' ! n] else natToString (n div 10) @ [''0123456789'' ! (n mod 10)])"
  by pat_completeness auto
termination
  by (relation "measure id") auto

declare natToString.simps [simp del]

definition intToString :: "'n platform \<Rightarrow> nat \<Rightarrow> string" where
  "intToString pl n = (if n < 9007199254740992 then natToString n else largeToString pl n)"

definition isDigit :: "char \<Rightarrow> bool" where
  "isDigit c = (let n = (of_char c :: nat) in 48 \<le> n \<and> n \<le> 57)"

text \<open>\<^verbatim>\<open>parseInt(ds)\<close> on a string of digits: the number the digits denote.\<close>

definition parseInt :: "string \<Rightarrow> nat" where
  "parseInt ds = foldl (\<lambda>acc c. 10 * acc + (of_char c - 48)) 0 ds"

section \<open>claude.ts\<close>

definition PDF_RECIPE_PROMPT :: string where
  \<open>PDF_RECIPE_PROMPT =
     ''Extract all recipes from this PDF document. Return ONLY valid JSON with no additional text or markdown formatting.\<newline>'' @
     ''\<newline>'' @
     ''If there are multiple recipes, return an array. If there's only one recipe, still return it as a single-element array.\<newline>'' @
     ''\<newline>'' @
     ''[\<newline>'' @
     ''  {\<newline>'' @
     ''    "name": "Recipe title",\<newline>'' @
     ''    "ingredients": "Each ingredient on its own line, include quantities and units",\<newline>'' @
     ''    "directions": "Step by step instructions, each step on its own line, numbered",\<newline>'' @
     ''    "prep_time": "Prep time if visible, otherwise empty string",\<newline>'' @
     ''    "cook_time": "Cook time if visible, otherwise empty string",\<newline>'' @
     ''    "servings": "Number of servings if visible, otherwise empty string",\<newline>'' @
     ''    "source": "Source or attribution if visible, otherwise empty string",\<newline>'' @
     ''    "source_url": "",\<newline>'' @
     ''    "notes": "Any additional notes, tips, or variations mentioned"\<newline>'' @
     ''  }\<newline>'' @
     '']\<newline>'' @
     ''\<newline>'' @
     ''Important:\<newline>'' @
     ''- Extract ALL recipes from the document\<newline>'' @
     ''- Preserve exact ingredient quantities and measurements\<newline>'' @
     ''- Keep instruction steps in order''\<close>

definition URL_RECIPE_PROMPT :: string where
  \<open>URL_RECIPE_PROMPT =
     ''Extract the recipe from this webpage content. Return ONLY valid JSON with no additional text or markdown formatting.\<newline>'' @
     ''\<newline>'' @
     ''{\<newline>'' @
     ''  "name": "Recipe title",\<newline>'' @
     ''  "ingredients": "Each ingredient on its own line, include quantities and units",\<newline>'' @
     ''  "directions": "Step by step instructions, each step on its own line, numbered",\<newline>'' @
     ''  "prep_time": "Prep time if visible, otherwise empty string",\<newline>'' @
     ''  "cook_time": "Cook time if visible, otherwise empty string",\<newline>'' @
     ''  "servings": "Number of servings if visible, otherwise empty string",\<newline>'' @
     ''  "source": "Website or author name",\<newline>'' @
     ''  "source_url": "The original URL",\<newline>'' @
     ''  "notes": "Any additional notes, tips, or variations mentioned",\<newline>'' @
     ''  "image_url": "URL of the main recipe image if found, otherwise empty string"\<newline>'' @
     ''}\<newline>'' @
     ''\<newline>'' @
     ''Important:\<newline>'' @
     ''- Look for structured recipe data (JSON-LD, schema.org markup) first\<newline>'' @
     ''- Extract the main recipe image URL if available\<newline>'' @
     ''- Preserve exact ingredient quantities and measurements\<newline>'' @
     ''- Keep instruction steps in order\<newline>'' @
     ''- If no recipe is found, set name to "NO_RECIPE" and explain in notes''\<close>

record 'n ExtractedRecipe =
  name :: "'n json"
  ingredients :: "'n json"
  directions :: "'n json"
  prep_time :: "'n json"
  cook_time :: "'n json"
  servings :: "'n json"
  source :: "'n json"
  source_url :: "'n json"
  "notes" :: "'n json"
  image_url :: "'n json option"

text \<open>
  The interface declares every field but \<^verbatim>\<open>image_url\<close> a string. Nothing checks
  it at run time: a field holds what the parsed response held, so the record keeps
  values, and a string is a \<open>JStr\<close>.
\<close>

subsection \<open>formatDuration\<close>

text \<open>The text behind the first \<^verbatim>\<open>PT\<close> of a string.\<close>

fun find_PT :: "string \<Rightarrow> string option" where
  "find_PT [] = None"
| "find_PT (c # cs) = (if prefix ''PT'' (c # cs) then Some (drop 2 (c # cs)) else find_PT cs)"

text \<open>
  \<^verbatim>\<open>(?:(\d+)X)?\<close> at the start of a text: the digits captured and the text behind
  \<open>X\<close>, when the longest run of digits is not empty and \<open>X\<close> follows it.
\<close>

definition digitsThen :: "char \<Rightarrow> string \<Rightarrow> (string \<times> string) option" where
  "digitsThen x s =
     (let ds = takeWhile isDigit s
      in (case dropWhile isDigit s of
            [] \<Rightarrow> None
          | c # r \<Rightarrow> if ds \<noteq> [] \<and> c = x then Some (ds, r) else None))"

definition formatDuration :: "'n platform \<Rightarrow> string option \<Rightarrow> string" where
  "formatDuration pl duration =
     (case duration of
        None \<Rightarrow> []
      | Some d \<Rightarrow>
          if d = [] then []
          else (case find_PT d of
                  None \<Rightarrow> d
                | Some r \<Rightarrow>
                    (let (hours, r1) = (case digitsThen CHR ''H'' r of
                                          Some (ds, r') \<Rightarrow> (parseInt ds, r')
                                        | None \<Rightarrow> (0, r));
                         minutes = (case digitsThen CHR ''M'' r1 of
                                      Some (ds, r') \<Rightarrow> parseInt ds
                                    | None \<Rightarrow> 0)
                     in if hours \<noteq> 0 \<and> minutes \<noteq> 0
                        then intToString pl hours @ '' hour'' @ (if hours > 1 then ''s'' else [])
                               @ '' '' @ intToString pl minutes @ '' min''
                        else if hours \<noteq> 0
                        then intToString pl hours @ '' hour'' @ (if hours > 1 then ''s'' else [])
                        else if minutes \<noteq> 0 then intToString pl minutes @ '' min''
                        else [])))"

text \<open>
  \<^verbatim>\<open>this.formatDuration(obj.prepTime as string)\<close>: the cast checks nothing. A falsy
  value gives the empty string, a string is formatted, and any other value has no
  callable \<^verbatim>\<open>match\<close>: the call throws.
\<close>

definition formatDurationOf :: "'n platform \<Rightarrow> 'n json option \<Rightarrow> error + string" where
  "formatDurationOf pl v =
     (case v of
        None \<Rightarrow> Inr (formatDuration pl None)
      | Some (JStr d) \<Rightarrow> Inr (formatDuration pl (Some d))
      | Some x \<Rightarrow> if truthy pl (Some x) then Inl TypeError else Inr [])"

subsection \<open>extractRecipeFromJsonLd\<close>

text \<open>\<^verbatim>\<open>v || d\<close>\<close>

definition orElse :: "'n platform \<Rightarrow> 'n json option \<Rightarrow> 'n json \<Rightarrow> 'n json" where
  "orElse pl v d = (case v of None \<Rightarrow> d | Some x \<Rightarrow> if truthy pl (Some x) then x else d)"

text \<open>\<^verbatim>\<open>xs[0]\<close>\<close>

definition first :: "'a list \<Rightarrow> 'a option" where
  "first xs = (case xs of [] \<Rightarrow> None | x # _ \<Rightarrow> Some x)"

text \<open>One step of \<^verbatim>\<open>recipeInstructions\<close>, numbered from its index.\<close>

definition stepText :: "'n platform \<Rightarrow> nat \<Rightarrow> 'n json \<Rightarrow> error + string" where
  "stepText pl idx step =
     (case step of
        JStr s \<Rightarrow> Inr (natToString (idx + 1) @ ''. '' @ s)
      | _ \<Rightarrow>
          bindE (getProp step ''text'') (\<lambda>t.
          bindE (getProp step ''name'') (\<lambda>n.
          bindE (toStr pl (orElse pl t (orElse pl n (JStr [])))) (\<lambda>s.
          Inr (natToString (idx + 1) @ ''. '' @ s)))))"

text \<open>The fields of an object tagged as a Recipe.\<close>

definition recipeNode ::
  "'n platform \<Rightarrow> (string \<times> 'n json) list \<Rightarrow> string \<Rightarrow> error + 'n ExtractedRecipe option"
where
  "recipeNode pl obj sourceUrl =
     bindE (case map_of obj ''name'' of
              None \<Rightarrow> Inr []
            | Some v \<Rightarrow> if truthy pl (Some v) then toStr pl v else Inr []) (\<lambda>nm.
     if nm = [] then Inr None
     else
     bindE (case map_of obj ''recipeIngredient'' of
              Some (JArr xs) \<Rightarrow> joinValues pl ''\<newline>'' xs
            | _ \<Rightarrow> Inr []) (\<lambda>ingr.
     bindE (case map_of obj ''recipeInstructions'' of
              Some (JArr steps) \<Rightarrow>
                bindE (mapE (\<lambda>(idx, step). stepText pl idx step) (zip [0..<length steps] steps))
                  (\<lambda>ls. Inr (join ''\<newline>'' ls))
            | _ \<Rightarrow> Inr []) (\<lambda>dirs.
     bindE (formatDurationOf pl (map_of obj ''prepTime'')) (\<lambda>prepTime.
     bindE (formatDurationOf pl (map_of obj ''cookTime'')) (\<lambda>cookTime.
     bindE (case map_of obj ''recipeYield'' of
              None \<Rightarrow> Inr []
            | Some y \<Rightarrow>
                if \<not> truthy pl (Some y) then Inr []
                else (case y of JArr ys \<Rightarrow> ToString pl (first ys) | _ \<Rightarrow> toStr pl y)) (\<lambda>serv.
     (let imageUrl =
            (case map_of obj ''image'' of
               None \<Rightarrow> JStr []
             | Some im \<Rightarrow>
                 if \<not> truthy pl (Some im) then JStr []
                 else (case im of
                         JStr s \<Rightarrow> JStr s
                       | JArr xs \<Rightarrow>
                           (case first xs of
                              Some (JStr s) \<Rightarrow> JStr s
                            | x0 \<Rightarrow> orElse pl (optProp x0 ''url'') (JStr []))
                       | _ \<Rightarrow> orElse pl (optProp (Some im) ''url'') (JStr [])));
          src =
            (case map_of obj ''author'' of
               None \<Rightarrow> JStr []
             | Some a \<Rightarrow>
                 if \<not> truthy pl (Some a) then JStr []
                 else (case a of
                         JStr s \<Rightarrow> JStr s
                       | JArr xs \<Rightarrow> orElse pl (optProp (first xs) ''name'') (JStr [])
                       | _ \<Rightarrow> orElse pl (optProp (Some a) ''name'') (JStr [])))
      in Inr (Some \<lparr>name = JStr nm, ingredients = JStr ingr, directions = JStr dirs,
                    prep_time = JStr prepTime, cook_time = JStr cookTime, servings = JStr serv,
                    source = src, source_url = JStr sourceUrl, notes = JStr [],
                    image_url = Some imageUrl\<rparr>))))))))"

lemma map_of_size:
  "map_of kvs k = Some v \<Longrightarrow> size v < Suc (size_list (size_prod (\<lambda>_. 0) size) kvs)"
  by (induction kvs) (auto split: if_splits)

function extractRecipeFromJsonLd ::
    "'n platform \<Rightarrow> 'n json \<Rightarrow> string \<Rightarrow> error + 'n ExtractedRecipe option"
  and extractFromItems ::
    "'n platform \<Rightarrow> 'n json list \<Rightarrow> string \<Rightarrow> error + 'n ExtractedRecipe option"
where
  "extractRecipeFromJsonLd pl (JArr items) sourceUrl = extractFromItems pl items sourceUrl"
| "extractRecipeFromJsonLd pl JNull sourceUrl = Inl TypeError"
| "extractRecipeFromJsonLd pl (JBool b) sourceUrl = Inr None"
| "extractRecipeFromJsonLd pl (JNum n) sourceUrl = Inr None"
| "extractRecipeFromJsonLd pl (JStr s) sourceUrl = Inr None"
| "extractRecipeFromJsonLd pl (JObj obj) sourceUrl =
     (let isRecipe =
            (case map_of obj ''@type'' of
               Some (JStr t) \<Rightarrow> t = ''Recipe''
             | Some (JArr ts) \<Rightarrow> JStr ''Recipe'' \<in> set ts
             | _ \<Rightarrow> False)
      in if \<not> isRecipe
         then (case map_of obj ''@graph'' of
                 None \<Rightarrow> Inr None
               | Some g \<Rightarrow>
                   if truthy pl (Some g) then extractRecipeFromJsonLd pl g sourceUrl
                   else Inr None)
         else recipeNode pl obj sourceUrl)"
| "extractFromItems pl [] sourceUrl = Inr None"
| "extractFromItems pl (item # items) sourceUrl =
     (case extractRecipeFromJsonLd pl item sourceUrl of
        Inl e \<Rightarrow> Inl e
      | Inr None \<Rightarrow> extractFromItems pl items sourceUrl
      | Inr (Some recipe) \<Rightarrow>
          if name recipe \<noteq> JStr ''NO_RECIPE'' then Inr (Some recipe)
          else extractFromItems pl items sourceUrl)"
  by pat_completeness auto
termination
  by (relation "measure (\<lambda>x. case x of
                   Inl (pl, d, u) \<Rightarrow> 2 * size d
                 | Inr (pl, items, u) \<Rightarrow> 2 * size_list size items + 1)")
     (auto dest: map_of_size)

subsection \<open>validateRecipe\<close>

text \<open>
  \<^verbatim>\<open>recipe.k || d\<close> on the parsed response. The argument is whatever
  \<^verbatim>\<open>JSON.parse\<close> gave: reading a property of \<^verbatim>\<open>null\<close> throws.
\<close>

definition field :: "'n platform \<Rightarrow> 'n json \<Rightarrow> string \<Rightarrow> string \<Rightarrow> error + 'n json" where
  "field pl recipe k d = bindE (getProp recipe k) (\<lambda>v. Inr (orElse pl v (JStr d)))"

definition validateRecipe :: "'n platform \<Rightarrow> 'n json \<Rightarrow> error + 'n ExtractedRecipe" where
  "validateRecipe pl recipe =
     bindE (field pl recipe ''name'' ''Untitled Recipe'') (\<lambda>nm.
     bindE (field pl recipe ''ingredients'' []) (\<lambda>ingr.
     bindE (field pl recipe ''directions'' []) (\<lambda>dirs.
     bindE (field pl recipe ''prep_time'' []) (\<lambda>prepTime.
     bindE (field pl recipe ''cook_time'' []) (\<lambda>cookTime.
     bindE (field pl recipe ''servings'' []) (\<lambda>serv.
     bindE (field pl recipe ''source'' []) (\<lambda>src.
     bindE (field pl recipe ''source_url'' []) (\<lambda>srcUrl.
     bindE (field pl recipe ''notes'' []) (\<lambda>nts.
     bindE (getProp recipe ''image_url'') (\<lambda>img.
     Inr \<lparr>name = nm, ingredients = ingr, directions = dirs, prep_time = prepTime,
          cook_time = cookTime, servings = serv, source = src, source_url = srcUrl,
          notes = nts,
          image_url = (if truthy pl img then img else None)\<rparr>))))))))))"

subsection \<open>The generative service and its responses\<close>

text \<open>
  The service is a collaborator: a parameter \<open>client\<close> from the request to the message
  it answers, or the error it throws. A document block stands for the base64 block
  of its bytes.
\<close>

datatype requestBlock = DocumentBlock "8 word list" | TextBlock string

datatype requestContent = StringContent string | BlockContent "requestBlock list"

record request =
  model :: string
  max_tokens :: nat
  content :: requestContent

datatype contentBlock = ResponseText string | ResponseOther

type_synonym message = "contentBlock list"

type_synonym client = "request \<Rightarrow> error + message"

text \<open>\<^verbatim>\<open>response.content.find((block) => block.type === 'text')\<close>\<close>

fun findText :: "message \<Rightarrow> string option" where
  "findText [] = None"
| "findText (ResponseText t # bs) = Some t"
| "findText (ResponseOther # bs) = findText bs"

text \<open>
  \<^verbatim>\<open>s.match(/\{[\s\S]*\}/)\<close> and \<^verbatim>\<open>s.match(/\[[\s\S]*\]/)\<close>: the star is greedy, so
  the match runs from the first opening character to the last closing character
  behind it.
\<close>

definition greedySpan :: "char \<Rightarrow> char \<Rightarrow> string \<Rightarrow> string option" where
  "greedySpan opn cls s =
     (case dropWhile (\<lambda>c. c \<noteq> opn) s of
        [] \<Rightarrow> None
      | c # body \<Rightarrow>
          if cls \<in> set body then Some (c # rev (dropWhile (\<lambda>c. c \<noteq> cls) (rev body)))
          else None)"

definition parseJSON :: "'n platform \<Rightarrow> string \<Rightarrow> error + 'n json" where
  "parseJSON pl s = (case JSON_parse pl s of None \<Rightarrow> Inl SyntaxError | Some v \<Rightarrow> Inr v)"

definition parseRecipeResponse :: "'n platform \<Rightarrow> message \<Rightarrow> error + 'n ExtractedRecipe" where
  "parseRecipeResponse pl response =
     (case findText response of
        None \<Rightarrow> Inl (Error ''No text response from Claude'')
      | Some t \<Rightarrow>
          (let jsonText = trim t
           in (case bindE (parseJSON pl jsonText) (validateRecipe pl) of
                 Inr recipe \<Rightarrow> Inr recipe
               | Inl caught \<Rightarrow>
                   (case greedySpan CHR ''{'' CHR ''}'' jsonText of
                      Some jsonMatch \<Rightarrow> bindE (parseJSON pl jsonMatch) (validateRecipe pl)
                    | None \<Rightarrow>
                        Inl (Error (''Failed to parse recipe JSON: '' @ take 200 jsonText))))))"

subsection \<open>extractFromPDF\<close>

text \<open>\<^verbatim>\<open>Array.isArray(v) ? v : [v]\<close>, then \<^verbatim>\<open>validateRecipe\<close> on every element.\<close>

definition validateAll :: "'n platform \<Rightarrow> 'n json \<Rightarrow> error + 'n ExtractedRecipe list" where
  "validateAll pl v = mapE (validateRecipe pl) (case v of JArr rs \<Rightarrow> rs | _ \<Rightarrow> [v])"

definition extractFromPDF ::
  "'n platform \<Rightarrow> client \<Rightarrow> 8 word list \<Rightarrow> error + 'n ExtractedRecipe list"
where
  "extractFromPDF pl client pdfData =
     bindE (client \<lparr>model = ''claude-sonnet-4-20250514'', max_tokens = 8192,
                     content = BlockContent [DocumentBlock pdfData, TextBlock PDF_RECIPE_PROMPT]\<rparr>)
       (\<lambda>response.
          (case findText response of
             None \<Rightarrow> Inl (Error ''No text response from Claude'')
           | Some t \<Rightarrow>
               (let jsonText = trim t
                in (case bindE (parseJSON pl jsonText) (validateAll pl) of
                      Inr recipes \<Rightarrow> Inr recipes
                    | Inl caught \<Rightarrow>
                        (case (case greedySpan CHR ''['' CHR '']'' jsonText of
                                 Some m \<Rightarrow> Some m
                               | None \<Rightarrow> greedySpan CHR ''{'' CHR ''}'' jsonText) of
                           Some jsonMatch \<Rightarrow> bindE (parseJSON pl jsonMatch) (validateAll pl)
                         | None \<Rightarrow>
                             Inl (Error (''Failed to parse PDF recipe JSON: ''
                                           @ take 200 jsonText)))))))"

subsection \<open>extractFromURL\<close>

text \<open>What \<^verbatim>\<open>fetch\<close> resolves to; \<open>body\<close> is what \<^verbatim>\<open>response.text()\<close> gives.\<close>

record fetchResponse =
  ok :: bool
  status :: nat
  statusText :: string
  body :: "error + string"

type_synonym fetcher = "string \<Rightarrow> error + fetchResponse"

definition openTag :: string where
  \<open>openTag = ''<script type="application/ld+json">''\<close>

definition closeTag :: string where
  "closeTag = ''</script>''"

text \<open>
  The first place where the lower-case ASCII pattern \<open>p\<close> occurs in a text, ignoring
  case: the text before it and the text behind it.
\<close>

fun find_ci :: "string \<Rightarrow> string \<Rightarrow> (string \<times> string) option" where
  "find_ci p [] = (if p = [] then Some ([], []) else None)"
| "find_ci p (c # cs) =
     (case ci_prefix p (c # cs) of
        Some r \<Rightarrow> Some ([], r)
      | None \<Rightarrow> (case find_ci p cs of None \<Rightarrow> None | Some (b, a) \<Rightarrow> Some (c # b, a)))"

lemma find_ci_length: "find_ci p s = Some (b, a) \<Longrightarrow> length a \<le> length s"
proof (induction s arbitrary: b)
  case Nil
  then show ?case by (simp split: if_splits)
next
  case (Cons c cs)
  then show ?case
    by (fastforce split: option.splits dest: ci_prefix_length)
qed

text \<open>
  \<^verbatim>\<open>html.match(/<script type="application\/ld\+json">([\s\S]*?)<\/script>/gi)\<close>: every
  block, whole; the lazy star stops at the first closing tag.
\<close>

function match_jsonLd :: "string \<Rightarrow> string list" where
  "match_jsonLd s =
     (if s = [] then []
      else (case ci_prefix openTag s of
              None \<Rightarrow> match_jsonLd (tl s)
            | Some r \<Rightarrow>
                (case find_ci closeTag r of
                   None \<Rightarrow> match_jsonLd (tl s)
                 | Some (inner, after) \<Rightarrow>
                     take (length s - length after) s # match_jsonLd after)))"
  by pat_completeness auto
termination
proof (relation "measure length")
  show "wf (measure length)" by simp
next
  fix s :: string
  assume "s \<noteq> []"
  then show "(tl s, s) \<in> measure length" by (cases s) auto
next
  fix s r :: string
  assume "s \<noteq> []"
  then show "(tl s, s) \<in> measure length" by (cases s) auto
next
  fix s r :: string and x2 :: "string \<times> string" and x y :: string
  assume "ci_prefix openTag s = Some r" and "find_ci closeTag r = Some x2" and "(x, y) = x2"
  then have "length s = length openTag + length r" and "length y \<le> length r"
    by (auto dest: ci_prefix_length find_ci_length)
  then show "(y, s) \<in> measure length" by (simp add: openTag_def)
qed

declare match_jsonLd.simps [simp del]

text \<open>\<^verbatim>\<open>s.replace(/p/i, '')\<close>: the first occurrence goes.\<close>

definition removeFirst_ci :: "string \<Rightarrow> string \<Rightarrow> string" where
  "removeFirst_ci p s = (case find_ci p s of None \<Rightarrow> s | Some (b, a) \<Rightarrow> b @ a)"

text \<open>
  The loop over the blocks; the state is \<^verbatim>\<open>recipeFromSchema\<close>. A throw of
  \<^verbatim>\<open>JSON.parse\<close> or of the walk is caught and the next block tried, the variable
  left as it was.
\<close>

fun jsonLdLoop ::
  "'n platform \<Rightarrow> string \<Rightarrow> string list \<Rightarrow> 'n ExtractedRecipe option \<Rightarrow> 'n ExtractedRecipe option"
where
  "jsonLdLoop pl u [] recipeFromSchema = recipeFromSchema"
| "jsonLdLoop pl u (m # ms) recipeFromSchema =
     (let jsonContent = removeFirst_ci closeTag (removeFirst_ci openTag m)
      in (case bindE (parseJSON pl jsonContent) (\<lambda>parsed. extractRecipeFromJsonLd pl parsed u) of
            Inl caught \<Rightarrow> jsonLdLoop pl u ms recipeFromSchema
          | Inr None \<Rightarrow> jsonLdLoop pl u ms None
          | Inr (Some recipe) \<Rightarrow>
              if name recipe \<noteq> JStr ''NO_RECIPE'' then Some recipe
              else jsonLdLoop pl u ms (Some recipe)))"

text \<open>
  The ways a greedy \<^verbatim>\<open>[^>]*\<close> can stop, the longest first: the texts left to the
  rest of the pattern.
\<close>

fun greedyStar :: "(char \<Rightarrow> bool) \<Rightarrow> string \<Rightarrow> string list" where
  "greedyStar P [] = [[]]"
| "greedyStar P (c # cs) = (if P c then greedyStar P cs @ [c # cs] else [c # cs])"

fun firstSome :: "('a \<Rightarrow> 'b option) \<Rightarrow> 'a list \<Rightarrow> 'b option" where
  "firstSome f [] = None"
| "firstSome f (x # xs) = (case f x of Some y \<Rightarrow> Some y | None \<Rightarrow> firstSome f xs)"

text \<open>\<^verbatim>\<open>content="([^"]+)"\<close> at the start of a text: the group.\<close>

definition captureContent :: "string \<Rightarrow> string option" where
  \<open>captureContent s =
     (case ci_prefix ''content="'' s of
        None \<Rightarrow> None
      | Some r \<Rightarrow>
          (let v = takeWhile (\<lambda>c. c \<noteq> CHR 0x22) r
           in if v \<noteq> [] \<and> dropWhile (\<lambda>c. c \<noteq> CHR 0x22) r \<noteq> [] then Some v else None))\<close>

text \<open>
  \<^verbatim>\<open><meta[^>]*ATTR[^>]*content="([^"]+)"\<close> with the \<^verbatim>\<open>i\<close> flag at the start of a
  text, the alternatives in the order of the backtracking.
\<close>

definition metaAt :: "string \<Rightarrow> string \<Rightarrow> string option" where
  "metaAt attr s =
     (case ci_prefix ''<meta'' s of
        None \<Rightarrow> None
      | Some r \<Rightarrow>
          firstSome
            (\<lambda>r1. case ci_prefix attr r1 of
                    None \<Rightarrow> None
                  | Some r2 \<Rightarrow> firstSome captureContent (greedyStar (\<lambda>c. c \<noteq> CHR ''>'') r2))
            (greedyStar (\<lambda>c. c \<noteq> CHR ''>'') r))"

text \<open>\<^verbatim>\<open>html.match(...)?.[1]\<close>: the group of the leftmost match.\<close>

fun metaMatch :: "string \<Rightarrow> string \<Rightarrow> string option" where
  "metaMatch attr [] = None"
| "metaMatch attr (c # cs) =
     (case metaAt attr (c # cs) of Some v \<Rightarrow> Some v | None \<Rightarrow> metaMatch attr cs)"

definition truncatedHtml :: "string \<Rightarrow> string" where
  "truncatedHtml html = (if length html > 50000 then take 50000 html @ ''...'' else html)"

definition urlRequest :: "string \<Rightarrow> string \<Rightarrow> request" where
  "urlRequest u html =
     \<lparr>model = ''claude-sonnet-4-20250514'', max_tokens = 4096,
      content = StringContent (''Here is the HTML content from '' @ u @ '':\<newline>\<newline>''
                                 @ truncatedHtml html @ ''\<newline>\<newline>'' @ URL_RECIPE_PROMPT)\<rparr>"

text \<open>The fall back to the service, from the meta tags on.\<close>

definition fallback ::
  "'n platform \<Rightarrow> client \<Rightarrow> string \<Rightarrow> string \<Rightarrow> request list \<times> (error + 'n ExtractedRecipe)"
where
  \<open>fallback pl client u html =
     (let imageUrl = (case metaMatch ''property="og:image"'' html of
                        Some v \<Rightarrow> v
                      | None \<Rightarrow> (case metaMatch ''name="twitter:image"'' html of
                                   Some v \<Rightarrow> v
                                 | None \<Rightarrow> []));
          req = urlRequest u html
      in ([req],
          bindE (client req) (\<lambda>claudeResponse.
          bindE (parseRecipeResponse pl claudeResponse) (\<lambda>recipe.
          (let recipe1 = recipe\<lparr>source_url := JStr u\<rparr>
           in Inr (if \<not> truthy pl (image_url recipe1) \<and> imageUrl \<noteq> []
                   then recipe1\<lparr>image_url := Some (JStr imageUrl)\<rparr>
                   else recipe1))))))\<close>

text \<open>
  \<^verbatim>\<open>extractFromURL\<close> gives the requests it sent to the service, in order, and what
  it returns or throws.
\<close>

definition extractFromURL ::
  "'n platform \<Rightarrow> fetcher \<Rightarrow> client \<Rightarrow> string \<Rightarrow> request list \<times> (error + 'n ExtractedRecipe)"
where
  "extractFromURL pl fetch client u =
     (case fetch u of
        Inl e \<Rightarrow> ([], Inl e)
      | Inr response \<Rightarrow>
          if \<not> ok response
          then ([], Inl (Error (''Failed to fetch URL: '' @ natToString (status response)
                                  @ '' '' @ statusText response)))
          else (case body response of
                  Inl e \<Rightarrow> ([], Inl e)
                | Inr html \<Rightarrow>
                    (let recipeFromSchema = jsonLdLoop pl u (match_jsonLd html) None
                     in (case recipeFromSchema of
                           Some recipe \<Rightarrow>
                             if truthy pl (Some (ingredients recipe)) \<and>
                                truthy pl (Some (directions recipe))
                             then ([], Inr recipe)
                             else fallback pl client u html
                         | None \<Rightarrow> fallback pl client u html))))"

section \<open>index.ts: the email handler's saveRecipe\<close>

record ProcessingResult =
  success :: bool
  recipeName :: "string option"
  error :: "string option"

text \<open>
  The state \<^verbatim>\<open>saveRecipe\<close> works on: the collector \<^verbatim>\<open>results\<close>, and the records
  handed to the sink's \<^verbatim>\<open>createRecipe\<close> so far. The sink is a collaborator: a
  parameter from the record to the name it created, or the error it throws.
\<close>

record 'n handlerState =
  results :: "ProcessingResult list"
  sinkCalls :: "'n ExtractedRecipe list"

type_synonym 'n sink = "'n ExtractedRecipe \<Rightarrow> error + string"

text \<open>
  \<^verbatim>\<open>saveRecipe\<close> gives the new state and what it throws, if it does. The first
  line logs the name through a template literal, which converts it to a string.
\<close>

definition saveRecipe ::
  "'n platform \<Rightarrow> 'n sink \<Rightarrow> 'n ExtractedRecipe \<Rightarrow> string \<Rightarrow> 'n handlerState \<Rightarrow>
   'n handlerState \<times> error option"
where
  "saveRecipe pl createRecipe recipe sourceDesc st =
     (case toStr pl (name recipe) of
        Inl e \<Rightarrow> (st, Some e)
      | Inr logged \<Rightarrow>
          if name recipe = JStr ''UNREADABLE'' \<or> name recipe = JStr ''NO_RECIPE''
          then (case toStr pl (notes recipe) of
                  Inl e \<Rightarrow> (st, Some e)
                | Inr n \<Rightarrow>
                    (st\<lparr>results := results st @
                          [\<lparr>success = False, recipeName = None,
                            error = Some (''Could not extract recipe from '' @ sourceDesc
                                            @ '': '' @ n)\<rparr>]\<rparr>,
                     None))
          else (let st1 = st\<lparr>sinkCalls := sinkCalls st @ [recipe]\<rparr>
                in (case createRecipe recipe of
                      Inl e \<Rightarrow> (st1, Some e)
                    | Inr created \<Rightarrow>
                        (st1\<lparr>results := results st1 @
                               [\<lparr>success = True, recipeName = Some created, error = None\<rparr>]\<rparr>,
                         None))))"

text \<open>
  The loop over the records of one document,
  \<^verbatim>\<open>for (const recipe of recipes) await saveRecipe(recipe, ...)\<close>: a throw leaves the
  loop, and the records behind it are not saved.
\<close>

fun saveAll ::
  "'n platform \<Rightarrow> 'n sink \<Rightarrow> 'n ExtractedRecipe list \<Rightarrow> string \<Rightarrow> 'n handlerState \<Rightarrow>
   'n handlerState \<times> error option"
where
  "saveAll pl createRecipe [] sourceDesc st = (st, None)"
| "saveAll pl createRecipe (recipe # recipes) sourceDesc st =
     (case saveRecipe pl createRecipe recipe sourceDesc st of
        (st1, Some e) \<Rightarrow> (st1, Some e)
      | (st1, None) \<Rightarrow> saveAll pl createRecipe recipes sourceDesc st1)"

section \<open>Reference notions and example inputs\<close>

text \<open>
  The elements of a list, each at its first occurrence: what a deduplication that keeps
  the first-seen order leaves.
\<close>

definition firstOccurrences :: "'a list \<Rightarrow> 'a list" where
  "firstOccurrences xs = rev (remdups (rev xs))"

text \<open>The elements not seen before, each at its first occurrence.\<close>

fun firstSeen :: "string list \<Rightarrow> string list \<Rightarrow> string list" where
  "firstSeen seen [] = []"
| "firstSeen seen (x # xs) =
     (if x \<in> set seen then firstSeen seen xs else x # firstSeen (seen @ [x]) xs)"

text \<open>The matches of the URL pattern in the body of a message, cleaned.\<close>

definition cleanedMatches :: "email \<Rightarrow> string list" where
  "cleanedMatches e = map cleanUrl (match_URL_PATTERN (bodyText e))"

text \<open>A MIME library that parses the raw message at hand into the message \<open>e\<close>.\<close>

definition mimeGiving :: "email \<Rightarrow> mimeParser" where
  "mimeGiving e = (\<lambda>input. Inr e)"

text \<open>A message with a text body and nothing else.\<close>

definition textEmail :: "string \<Rightarrow> email" where
  "textEmail t = \<lparr>email_text = Some t, email_html = None, attachments = None\<rparr>"

text \<open>
  \<^verbatim>\<open>new URL(u).pathname\<close> on the URLs of the examples, which have the form
  \<^verbatim>\<open>http(s)://host/path?query\<close> with a plain host and path: the constructor throws
  when the host is empty (as in \<^verbatim>\<open>http://\<close>), the path runs from the first slash
  behind the host to the query, and it is \<^verbatim>\<open>/\<close> when the URL has none.
\<close>

definition examplePathname :: "string \<Rightarrow> string option" where
  "examplePathname u =
     (case match_scheme u of
        None \<Rightarrow> None
      | Some r \<Rightarrow>
          (let host = takeWhile (\<lambda>c. c \<notin> set ''/?#'') r;
               rest = dropWhile (\<lambda>c. c \<notin> set ''/?#'') r;
               path = takeWhile (\<lambda>c. c \<notin> set ''?#'') rest
           in if host = [] then None else Some (if path = [] then ''/'' else path)))"

text \<open>The bodies of the example messages.\<close>

definition duplicateEmail :: email where
  "duplicateEmail = textEmail ''Look: https://facebook.com/a and again https://facebook.com/a.''"

definition repeatedEmail :: email where
  "repeatedEmail =
     textEmail ''Dinner: https://allrecipes.com/recipe/1, https://www.tiktok.com/@chef/video/7 and again https://allrecipes.com/recipe/1.''"

text \<open>What \<^verbatim>\<open>parseEmailContent\<close> returns on \<open>repeatedEmail\<close>.\<close>

definition repeatedResult :: ParsedEmailContent where
  "repeatedResult =
     \<lparr>images = [], pdfs = [], urls = [urlItem ''https://allrecipes.com/recipe/1''],
      videos = [videoItem ''https://www.tiktok.com/@chef/video/7'' tiktok]\<rparr>"

definition channelEmail :: email where
  "channelEmail = textEmail ''Watch https://www.youtube.com/watch?v=abc and https://www.instagram.com/chef/''"

text \<open>A \<^verbatim>\<open>youtube.com\<close> link that carries a \<^verbatim>\<open>tiktok.com\<close> link in its query.\<close>

definition redirectUrl :: string where
  "redirectUrl = ''https://www.youtube.com/redirect?q=https://www.tiktok.com/@chef/video/7''"

text \<open>A body with an elided link: the pattern matches \<^verbatim>\<open>http://...\<close>.\<close>

definition brokenLinkEmail :: email where
  "brokenLinkEmail = textEmail ''More at http://...''"

text \<open>
  \<^verbatim>\<open>JSON.parse\<close> on the texts the examples hand to it: the values of these four
  texts. Every other text the examples reach is no JSON, and the table has no entry for
  it. The numbers of the examples are natural numbers below \<open>2\<^sup>5\<^sup>3\<close>, printed as their
  digits; none is as large as \<open>largeToString\<close> is for.
\<close>

definition exampleJSON :: "(string \<times> nat json) list" where
  \<open>exampleJSON =
     [(''{"name":"A"}'', JObj [(''name'', JStr ''A'')]),
      (''{"name":"Soup","ingredients":"water","directions":"1. Boil"}'',
       JObj [(''name'', JStr ''Soup''), (''ingredients'', JStr ''water''),
             (''directions'', JStr ''1. Boil'')]),
      (''{"@type":"Recipe","name":"Soup","recipeIngredient":["water"]}'',
       JObj [(''@type'', JStr ''Recipe''), (''name'', JStr ''Soup''),
             (''recipeIngredient'', JArr [JStr ''water''])]),
      (''{"@type":"Recipe","name":"Tea","recipeIngredient":["water","tea"],"recipeInstructions":["Boil","Steep"]}'',
       JObj [(''@type'', JStr ''Recipe''), (''name'', JStr ''Tea''),
             (''recipeIngredient'', JArr [JStr ''water'', JStr ''tea'']),
             (''recipeInstructions'', JArr [JStr ''Boil'', JStr ''Steep''])])]\<close>

definition examplePlatform :: "nat platform" where
  "examplePlatform =
     \<lparr>numberToString = natToString, numberToBoolean = (\<lambda>n. n \<noteq> 0),
      largeToString = natToString, JSON_parse = map_of exampleJSON\<rparr>"

text \<open>The number of places where \<open>p\<close> occurs in \<open>s\<close>.\<close>

fun occurrences :: "string \<Rightarrow> string \<Rightarrow> nat" where
  "occurrences p [] = (if p = [] then 1 else 0)"
| "occurrences p (c # cs) = (if prefix p (c # cs) then 1 else 0) + occurrences p cs"

text \<open>A page of 50003 code units that begins with three dots.\<close>

definition dottedHtml :: string where
  "dottedHtml = ''...'' @ replicate 50000 CHR ''a''"

text \<open>A \<^verbatim>\<open>fetch\<close> that answers 200 with the page \<open>html\<close>.\<close>

definition fetchGiving :: "string \<Rightarrow> fetcher" where
  "fetchGiving html = (\<lambda>u. Inr \<lparr>ok = True, status = 200, statusText = ''OK'', body = Inr html\<rparr>)"

text \<open>A service that answers every request with one text block.\<close>

definition clientAnswering :: "string \<Rightarrow> client" where
  "clientAnswering t = (\<lambda>req. Inr [ResponseText t])"

text \<open>
  The string of a field of a parsed object, or the default \<open>d\<close> when the field is
  absent, or present and empty.
\<close>

definition textOr :: "(string \<times> 'n json) list \<Rightarrow> string \<Rightarrow> string \<Rightarrow> string" where
  "textOr obj k d = (case map_of obj k of Some (JStr s) \<Rightarrow> if s = [] then d else s | _ \<Rightarrow> d)"

definition recipeFields :: "string list" where
  "recipeFields =
     [''name'', ''ingredients'', ''directions'', ''prep_time'', ''cook_time'', ''servings'',
      ''source'', ''source_url'', ''notes'', ''image_url'']"

text \<open>A partially populated recipe object: each field is absent, or a string.\<close>

definition partialRecipe :: "(string \<times> 'n json) list \<Rightarrow> bool" where
  "partialRecipe obj =
     list_all (\<lambda>k. case map_of obj k of None \<Rightarrow> True | Some (JStr s) \<Rightarrow> True | _ \<Rightarrow> False)
       recipeFields"

text \<open>A parsed response whose name and image are present and empty.\<close>

definition emptyNameObject :: "(string \<times> nat json) list" where
  "emptyNameObject = [(''name'', JStr []), (''ingredients'', JStr ''water''), (''image_url'', JStr [])]"

text \<open>A response with a valid object, followed by prose that holds braces.\<close>

definition chattyAnswer :: string where
  \<open>chattyAnswer = ''{"name":"A"} Enjoy! {smile}''\<close>

text \<open>
  Two pages with one JSON-LD block each, a recipe without instructions and a complete
  one; what the walk extracts from them; and an answer of the service.
\<close>

definition soupPage :: string where
  \<open>soupPage = ''<html><script type="application/ld+json">{"@type":"Recipe","name":"Soup","recipeIngredient":["water"]}</script></html>''\<close>

definition soupAnswer :: string where
  \<open>soupAnswer = ''{"name":"Soup","ingredients":"water","directions":"1. Boil"}''\<close>

definition soupSchema :: "nat ExtractedRecipe" where
  "soupSchema =
     \<lparr>name = JStr ''Soup'', ingredients = JStr ''water'', directions = JStr [],
      prep_time = JStr [], cook_time = JStr [], servings = JStr [], source = JStr [],
      source_url = JStr ''https://example.com/soup'', notes = JStr [],
      image_url = Some (JStr [])\<rparr>"

text \<open>A record whose ingredients and directions are strings.\<close>

definition textual :: "'n ExtractedRecipe \<Rightarrow> bool" where
  "textual r = ((\<exists>a. ingredients r = JStr a) \<and> (\<exists>b. directions r = JStr b))"

text \<open>The two reserved names of a soft decline.\<close>

definition sentinel :: "'n ExtractedRecipe \<Rightarrow> bool" where
  "sentinel r = (name r = JStr ''UNREADABLE'' \<or> name r = JStr ''NO_RECIPE'')"




definition teaPage :: string where
  \<open>teaPage = ''<script type="application/ld+json">{"@type":"Recipe","name":"Tea","recipeIngredient":["water","tea"],"recipeInstructions":["Boil","Steep"]}</script>''\<close>

definition teaSchema :: "nat ExtractedRecipe" where
  "teaSchema =
     \<lparr>name = JStr ''Tea'', ingredients = JStr ''water\<newline>tea'',
      directions = JStr ''1. Boil\<newline>2. Steep'',
      prep_time = JStr [], cook_time = JStr [], servings = JStr [], source = JStr [],
      source_url = JStr ''https://example.com/tea'', notes = JStr [],
      image_url = Some (JStr [])\<rparr>"

definition okResponse :: "string \<Rightarrow> fetchResponse" where
  "okResponse html = \<lparr>ok = True, status = 200, statusText = ''OK'', body = Inr html\<rparr>"

text \<open>
  \<^verbatim>\<open>ogImageMatch?.[1] || twitterImageMatch?.[1] || ''\<close>: the image of the meta tags.
\<close>

definition metaImage :: "string \<Rightarrow> string" where
  \<open>metaImage html =
     (case metaMatch ''property="og:image"'' html of
        Some v \<Rightarrow> v
      | None \<Rightarrow> (case metaMatch ''name="twitter:image"'' html of Some v \<Rightarrow> v | None \<Rightarrow> []))\<close>

text \<open>
  What \<^verbatim>\<open>extractFromURL\<close> does to the record the response gave: the source URL is set,
  and an image that is missing is filled in from the meta tags.
\<close>

definition finishRecipe :: "'n platform \<Rightarrow> string \<Rightarrow> string \<Rightarrow> 'n ExtractedRecipe \<Rightarrow> 'n ExtractedRecipe" where
  "finishRecipe pl u html recipe =
     (if \<not> truthy pl (image_url recipe) \<and> metaImage html \<noteq> []
      then recipe\<lparr>source_url := JStr u, image_url := Some (JStr (metaImage html))\<rparr>
      else recipe\<lparr>source_url := JStr u\<rparr>)"

text \<open>What the service's answer to the request \<open>req\<close> becomes.\<close>

definition answerTo :: "'n platform \<Rightarrow> client \<Rightarrow> string \<Rightarrow> string \<Rightarrow> request \<Rightarrow> error + 'n ExtractedRecipe" where
  "answerTo pl client u html req =
     bindE (client req) (\<lambda>response.
     bindE (parseRecipeResponse pl response) (\<lambda>recipe. Inr (finishRecipe pl u html recipe)))"

text \<open>A service that answers the request \<open>req\<close> with one text block, and no other request.\<close>

definition clientExpecting :: "request \<Rightarrow> string \<Rightarrow> client" where
  "clientExpecting req t = (\<lambda>r. if r = req then Inr [ResponseText t] else Inl (Error ''unexpected request''))"

text \<open>
  What the answer of the service gives for the soup page, and a service that answers
  the request built from that page and no other.
\<close>

definition soupResult :: "nat ExtractedRecipe" where
  "soupResult =
     \<lparr>name = JStr ''Soup'', ingredients = JStr ''water'', directions = JStr ''1. Boil'',
      prep_time = JStr [], cook_time = JStr [], servings = JStr [], source = JStr [],
      source_url = JStr ''https://example.com/soup'', notes = JStr [], image_url = None\<rparr>"

definition soupClient :: client where
  "soupClient = clientExpecting (urlRequest ''https://example.com/soup'' soupPage) soupAnswer"






text \<open>A body with a video link and an elided link.\<close>

definition mixedEmail :: email where
  "mixedEmail = textEmail ''Watch https://www.tiktok.com/@chef/video/7 - more at http://...''"

section \<open>The URL loop of parseEmailContent\<close>

lemma remdups_snoc: "remdups (ys @ [x]) = filter (\<lambda>y. y \<noteq> x) (remdups ys) @ [x]"
  by (induction ys) auto

lemma firstOccurrences_Cons:
  "rev (remdups (rev (x # xs))) = x # filter (\<lambda>y. y \<noteq> x) (rev (remdups (rev xs)))"
  by (simp add: remdups_snoc rev_filter)

lemma firstSeen_filter:
  "firstSeen seen xs = filter (\<lambda>x. x \<notin> set seen) (rev (remdups (rev xs)))"
proof (induction xs arbitrary: seen)
  case Nil
  then show ?case by simp
next
  case (Cons x xs)
  have eq: "filter (\<lambda>y. y \<notin> set seen) (filter (\<lambda>y. y \<noteq> x) zs) = filter (\<lambda>y. y \<notin> set (seen @ [x])) zs" for zs
    by (induction zs) auto
  show ?case
  proof (cases "x \<in> set seen")
    case True
    have "filter (\<lambda>y. y \<notin> set seen) (filter (\<lambda>y. y \<noteq> x) zs) = filter (\<lambda>y. y \<notin> set seen) zs" for zs
      using True by (induction zs) auto
    with True Cons show ?thesis
      by (simp add: firstOccurrences_Cons del: rev.simps remdups.simps)
  next
    case False
    with Cons eq show ?thesis
      by (simp add: firstOccurrences_Cons del: rev.simps remdups.simps)
  qed
qed

lemma urlLoop_result:
  "urlLoop pathname ms (seen, vs, us) = Inr (seen', vs', us') \<Longrightarrow>
     seen' = seen @ firstSeen seen (map cleanUrl ms) \<and>
     vs' = vs @ map (\<lambda>u. videoItem u (the (detectVideoPlatform u)))
                  (filter (\<lambda>u. detectVideoPlatform u \<noteq> None) (firstSeen seen (map cleanUrl ms))) \<and>
     us' = us @ map urlItem
                  (filter (\<lambda>u. detectVideoPlatform u = None \<and> isLikelyRecipeUrl pathname u = Inr True)
                     (firstSeen seen (map cleanUrl ms)))"
proof (induction ms arbitrary: seen vs us)
  case Nil
  then show ?case by simp
next
  case (Cons m ms)
  show ?case
  proof (cases "cleanUrl m \<in> set seen")
    case True
    with Cons.prems have "urlLoop pathname ms (seen, vs, us) = Inr (seen', vs', us')"
      by (simp add: Let_def)
    from Cons.IH [OF this] True show ?thesis by simp
  next
    case False
    show ?thesis
    proof (cases "detectVideoPlatform (cleanUrl m)")
      case (Some p)
      with False Cons.prems
      have "urlLoop pathname ms (seen @ [cleanUrl m], vs @ [videoItem (cleanUrl m) p], us)
              = Inr (seen', vs', us')"
        by (simp add: Let_def)
      from Cons.IH [OF this] False Some show ?thesis by simp
    next
      case None
      with False Cons.prems obtain b where
        b: "isLikelyRecipeUrl pathname (cleanUrl m) = Inr b" and
        loop: "urlLoop pathname ms (seen @ [cleanUrl m], vs, if b then us @ [urlItem (cleanUrl m)] else us)
              = Inr (seen', vs', us')"
        by (auto simp: Let_def split: sum.splits)
      from Cons.IH [OF loop] False None b show ?thesis by (cases b) simp_all
    qed
  qed
qed


lemma firstSeen_Nil: "firstSeen [] xs = firstOccurrences xs"
  by (simp add: firstSeen_filter firstOccurrences_def)

lemma parseEmailContent_buckets:
  assumes "mime (parserInput raw) = Inr e"
    and "parseEmailContent pathname mime raw = Inr r"
  shows "videos r = map (\<lambda>u. videoItem u (the (detectVideoPlatform u)))
                      (filter (\<lambda>u. detectVideoPlatform u \<noteq> None)
                         (firstOccurrences (cleanedMatches e)))"
    and "urls r = map urlItem
                    (filter (\<lambda>u. detectVideoPlatform u = None \<and>
                                  isLikelyRecipeUrl pathname u = Inr True)
                       (firstOccurrences (cleanedMatches e)))"
proof -
  from assms obtain seen vs us where
    loop: "urlLoop pathname (match_URL_PATTERN (bodyText e)) ([], [], []) = Inr (seen, vs, us)"
    and r: "videos r = vs" "urls r = us"
    by (auto simp: parseEmailContent_def Let_def split: sum.splits prod.splits)
  from urlLoop_result [OF loop] r
  show "videos r = map (\<lambda>u. videoItem u (the (detectVideoPlatform u)))
                      (filter (\<lambda>u. detectVideoPlatform u \<noteq> None)
                         (firstOccurrences (cleanedMatches e)))"
    and "urls r = map urlItem
                    (filter (\<lambda>u. detectVideoPlatform u = None \<and>
                                  isLikelyRecipeUrl pathname u = Inr True)
                       (firstOccurrences (cleanedMatches e)))"
    by (simp_all add: firstSeen_Nil cleanedMatches_def)
qed

lemma set_firstOccurrences: "set (firstOccurrences xs) = set xs"
  by (simp add: firstOccurrences_def)

lemma distinct_firstOccurrences: "distinct (firstOccurrences xs)"
  by (simp add: firstOccurrences_def)

lemma count_list_map_inj: "inj f \<Longrightarrow> count_list (map f xs) (f x) = count_list xs x"
  by (induction xs) (auto dest: injD)

lemma count_list_filter: "count_list (filter P xs) x = (if P x then count_list xs x else 0)"
  by (induction xs) auto

lemma count_list_distinct: "distinct xs \<Longrightarrow> count_list xs x = (if x \<in> set xs then 1 else 0)"
  by (induction xs) auto

lemma data_videoItem: "data (videoItem u p) = Text u"
  by (simp add: videoItem_def)

lemma data_urlItem: "data (urlItem u) = Text u"
  by (simp add: urlItem_def)

lemma str_includes_skip:
  "p \<in> set skipPatterns \<Longrightarrow> str_includes (toLowerCase u) p \<Longrightarrow> isLikelyRecipeUrl pathname u = Inr False"
  by (auto simp: isLikelyRecipeUrl_def list_ex_iff Let_def)

lemma brokenLink_matches: "cleanedMatches brokenLinkEmail = [''http://'']"
  by code_simp

lemma brokenLink_not_video: "detectVideoPlatform ''http://'' = None"
  by code_simp

lemma brokenLink_reaches_URL:
  "\<not> list_ex (str_includes (toLowerCase ''http://'')) skipPatterns \<and>
   \<not> list_ex (str_includes (toLowerCase ''http://'')) RECIPE_DOMAINS \<and>
   \<not> list_ex (str_includes (toLowerCase ''http://'')) recipeKeywords"
  by code_simp

lemma isLikelyRecipeUrl_throws: "isLikelyRecipeUrl pathname u = Inl err \<Longrightarrow> pathname u = None"
  by (auto simp: isLikelyRecipeUrl_def Let_def split: if_splits option.splits)

lemma urlLoop_returns:
  "\<forall>u \<in> set (map cleanUrl ms). pathname u \<noteq> None \<Longrightarrow>
     \<exists>st. urlLoop pathname ms (seen, vs, us) = Inr st"
proof (induction ms arbitrary: seen vs us)
  case Nil
  then show ?case by simp
next
  case (Cons m ms)
  then have "isLikelyRecipeUrl pathname (cleanUrl m) \<noteq> Inl err" for err
    by (auto dest: isLikelyRecipeUrl_throws)
  then obtain b where "isLikelyRecipeUrl pathname (cleanUrl m) = Inr b"
    by (cases "isLikelyRecipeUrl pathname (cleanUrl m)") auto
  with Cons show ?case
    by (auto simp: Let_def split: option.splits)
qed

lemma parseEmailContent_returns:
  assumes "mime (parserInput raw) = Inr e"
    and "\<forall>u \<in> set (cleanedMatches e). pathname u \<noteq> None"
  shows "\<exists>r. parseEmailContent pathname mime raw = Inr r"
proof -
  from assms(2) obtain st where
    "urlLoop pathname (match_URL_PATTERN (bodyText e)) ([], [], []) = Inr st"
    using urlLoop_returns [of "match_URL_PATTERN (bodyText e)" pathname "[]" "[]" "[]"]
    by (auto simp: cleanedMatches_def)
  with assms(1) show ?thesis
    by (cases st) (auto simp: parseEmailContent_def Let_def split: prod.splits)
qed


lemma filter_eq_distinct: "distinct xs \<Longrightarrow> u \<in> set xs \<Longrightarrow> filter (\<lambda>x. x = u) xs = [u]"
  by (induction xs) (auto simp: filter_empty_conv)

lemma video_bucket_when_returned:
  assumes "mime (parserInput raw) = Inr e"
    and "parseEmailContent pathname mime raw = Inr r"
    and "u \<in> set (cleanedMatches e)"
    and "detectVideoPlatform u = Some p"
  shows "filter (\<lambda>i. data i = Text u) (videos r) =
           [\<lparr>type = video, data = Text u, mimeType = None, filename = None, platform = Some p\<rparr>]"
    and "Text u \<notin> data ` set (urls r)"
proof -
  let ?c = "filter (\<lambda>u. detectVideoPlatform u \<noteq> None) (firstOccurrences (cleanedMatches e))"
  have "distinct ?c" "u \<in> set ?c"
    using assms(3,4) by (simp_all add: distinct_firstOccurrences set_firstOccurrences)
  then have "filter (\<lambda>x. x = u) ?c = [u]" by (rule filter_eq_distinct)
  then show "filter (\<lambda>i. data i = Text u) (videos r) =
           [\<lparr>type = video, data = Text u, mimeType = None, filename = None, platform = Some p\<rparr>]"
    using assms(4)
    by (simp add: parseEmailContent_buckets(1) [OF assms(1,2)] filter_map comp_def data_videoItem)
       (simp add: videoItem_def)
  show "Text u \<notin> data ` set (urls r)"
    using assms(4) by (auto simp: parseEmailContent_buckets(2) [OF assms(1,2)] urlItem_def)
qed

section \<open>Claims about email-parser.ts\<close>

text \<open>
  C2. The claim says that every URL of the body with a video-platform signature is in
  the videos bucket. On the body \<^verbatim>\<open>Watch https://www.tiktok.com/@chef/video/7 - more at
  http://...\<close> the TikTok link is detected as a video, and then the cleaned match
  \<^verbatim>\<open>http://\<close> reaches \<^verbatim>\<open>new URL(url)\<close>: on every platform whose URL constructor
  throws on a URL without a host, \<^verbatim>\<open>parseEmailContent\<close> throws, and the link is in no
  bucket. (When the function returns, \<open>video_bucket_when_returned\<close> gives the claim: the
  one video item of the URL carries the platform, and no url item holds it.)
\<close>

theorem video_lost_on_invalid_url:
  assumes "pathname ''http://'' = None"
    and "mime (parserInput raw) = Inr mixedEmail"
  shows "cleanedMatches mixedEmail = [''https://www.tiktok.com/@chef/video/7'', ''http://''] \<and>
         detectVideoPlatform ''https://www.tiktok.com/@chef/video/7'' = Some tiktok \<and>
         parseEmailContent pathname mime raw = Inl TypeError"
proof -
  have m: "match_URL_PATTERN (bodyText mixedEmail) =
             [''https://www.tiktok.com/@chef/video/7'', ''http://...'']"
    by code_simp
  have c: "cleanUrl ''https://www.tiktok.com/@chef/video/7'' = ''https://www.tiktok.com/@chef/video/7''"
    "cleanUrl ''http://...'' = ''http://''"
    by code_simp+
  have v: "detectVideoPlatform ''https://www.tiktok.com/@chef/video/7'' = Some tiktok"
    by code_simp
  have "isLikelyRecipeUrl pathname ''http://'' = Inl TypeError"
    using assms(1) brokenLink_reaches_URL by (simp add: isLikelyRecipeUrl_def Let_def)
  then have "parseEmailContent pathname mime raw = Inl TypeError"
    using assms(2) brokenLink_not_video
    by (simp add: parseEmailContent_def Let_def m c v split: prod.splits)
  with v show ?thesis by (simp add: cleanedMatches_def m c)
qed

theorem video_lost_on_invalid_url_witness:
  "examplePathname ''http://'' = None \<and>
   mimeGiving mixedEmail (parserInput (RawString [])) = Inr mixedEmail \<and>
   cleanedMatches mixedEmail = [''https://www.tiktok.com/@chef/video/7'', ''http://''] \<and>
   detectVideoPlatform ''https://www.tiktok.com/@chef/video/7'' = Some tiktok \<and>
   parseEmailContent examplePathname (mimeGiving mixedEmail) (RawString []) = Inl TypeError"
proof -
  have h1: "examplePathname ''http://'' = None"
    by code_simp
  have h2: "mimeGiving mixedEmail (parserInput (RawString [])) = Inr mixedEmail"
    by (simp add: mimeGiving_def)
  from video_lost_on_invalid_url
         [of examplePathname "mimeGiving mixedEmail" "RawString []", OF h1 h2]
    h1 h2 show ?thesis by (simp only: simp_thms)
qed

text \<open>
  C8 (as amended). When \<^verbatim>\<open>parseEmailContent\<close> returns, the two buckets hold the cleaned
  URLs of the body in the order of their first occurrences, the videos bucket those with
  a video-platform signature and the urls bucket those the recipe filter accepts; so
  matches that are identical after the cleanup give one content item between them when
  the URL is accepted, and none when it is rejected.
\<close>

theorem duplicates_collapse:
  assumes "mime (parserInput raw) = Inr e"
    and "parseEmailContent pathname mime raw = Inr r"
  shows "map data (videos r) =
           map Text (filter (\<lambda>u. detectVideoPlatform u \<noteq> None)
                       (firstOccurrences (cleanedMatches e))) \<and>
         map data (urls r) =
           map Text (filter (\<lambda>u. detectVideoPlatform u = None \<and>
                                  isLikelyRecipeUrl pathname u = Inr True)
                       (firstOccurrences (cleanedMatches e))) \<and>
         (\<forall>u \<in> set (cleanedMatches e).
            count_list (map data (videos r @ urls r)) (Text u) =
              (if detectVideoPlatform u \<noteq> None \<or> isLikelyRecipeUrl pathname u = Inr True
               then 1 else 0))"
proof -
  let ?c = "firstOccurrences (cleanedMatches e)"
  have v: "map data (videos r) = map Text (filter (\<lambda>u. detectVideoPlatform u \<noteq> None) ?c)"
    by (simp add: parseEmailContent_buckets(1) [OF assms] data_videoItem comp_def)
  have u: "map data (urls r) =
             map Text (filter (\<lambda>u. detectVideoPlatform u = None \<and>
                                    isLikelyRecipeUrl pathname u = Inr True) ?c)"
    by (simp add: parseEmailContent_buckets(2) [OF assms] data_urlItem comp_def)
  have inj: "inj Text" by (simp add: inj_def)
  have "count_list (map data (videos r @ urls r)) (Text x) =
          (if detectVideoPlatform x \<noteq> None \<or> isLikelyRecipeUrl pathname x = Inr True
           then 1 else 0)" if "x \<in> set (cleanedMatches e)" for x
  proof -
    have "count_list ?c x = 1"
      using that by (simp add: count_list_distinct distinct_firstOccurrences set_firstOccurrences)
    then show ?thesis
      by (simp add: v u count_list_map_inj [OF inj] count_list_filter)
  qed
  with v u show ?thesis by blast
qed

theorem duplicates_collapse_witness:
  "mimeGiving repeatedEmail (parserInput (RawString [])) = Inr repeatedEmail \<and>
   parseEmailContent examplePathname (mimeGiving repeatedEmail) (RawString []) = Inr repeatedResult \<and>
   cleanedMatches repeatedEmail =
     [''https://allrecipes.com/recipe/1'', ''https://www.tiktok.com/@chef/video/7'',
      ''https://allrecipes.com/recipe/1''] \<and>
   map data (videos repeatedResult) = [Text ''https://www.tiktok.com/@chef/video/7''] \<and>
   map data (urls repeatedResult) = [Text ''https://allrecipes.com/recipe/1''] \<and>
   count_list (map data (videos repeatedResult @ urls repeatedResult))
     (Text ''https://allrecipes.com/recipe/1'') = 1"
proof -
  have h1: "mimeGiving repeatedEmail (parserInput (RawString [])) = Inr repeatedEmail"
    by (simp add: mimeGiving_def)
  have h2: "parseEmailContent examplePathname (mimeGiving repeatedEmail) (RawString [])
              = Inr repeatedResult"
    by code_simp
  have h3: "cleanedMatches repeatedEmail =
     [''https://allrecipes.com/recipe/1'', ''https://www.tiktok.com/@chef/video/7'',
      ''https://allrecipes.com/recipe/1'']"
    by code_simp
  have h4: "isLikelyRecipeUrl examplePathname ''https://allrecipes.com/recipe/1'' = Inr True"
    by code_simp
  have h5: "map data (videos repeatedResult) = [Text ''https://www.tiktok.com/@chef/video/7'']"
    by code_simp
  have h6: "map data (urls repeatedResult) = [Text ''https://allrecipes.com/recipe/1'']"
    by code_simp
  from duplicates_collapse [OF h1 h2]
  have "\<forall>u \<in> set (cleanedMatches repeatedEmail).
          count_list (map data (videos repeatedResult @ urls repeatedResult)) (Text u) =
            (if detectVideoPlatform u \<noteq> None \<or> isLikelyRecipeUrl examplePathname u = Inr True
             then 1 else 0)"
    by blast
  then have "count_list (map data (videos repeatedResult @ urls repeatedResult))
               (Text ''https://allrecipes.com/recipe/1'') = 1"
    using h4 by (simp add: h3 del: map_append)
  with h1 h2 h3 h5 h6 show ?thesis by (simp only: simp_thms)
qed

text \<open>
  The claim as stated, exactly one content item for any two identical matches, fails on a
  URL the filter rejects: both matches of a \<^verbatim>\<open>facebook.com\<close> link give no item at all.
\<close>

theorem duplicates_collapse_counterexample:
  "cleanedMatches duplicateEmail = [''https://facebook.com/a'', ''https://facebook.com/a''] \<and>
   parseEmailContent examplePathname (mimeGiving duplicateEmail) (RawString []) =
     Inr \<lparr>images = [], pdfs = [], urls = [], videos = []\<rparr>"
  by code_simp

text \<open>
  C10 (as amended). When \<^verbatim>\<open>parseEmailContent\<close> returns, a cleaned URL of the body
  whose lower-case form contains \<^verbatim>\<open>youtube.com\<close> or \<^verbatim>\<open>instagram.com\<close>, and which
  matches no video-platform signature, is in neither the videos nor the urls bucket.
\<close>

theorem blocked_domains_dropped:
  assumes "mime (parserInput raw) = Inr e"
    and "parseEmailContent pathname mime raw = Inr r"
    and "u \<in> set (cleanedMatches e)"
    and "str_includes (toLowerCase u) ''youtube.com'' \<or> str_includes (toLowerCase u) ''instagram.com''"
    and "detectVideoPlatform u = None"
  shows "Text u \<notin> data ` set (videos r) \<and> Text u \<notin> data ` set (urls r)"
proof -
  have "isLikelyRecipeUrl pathname u = Inr False"
    using assms(4) by (auto intro: str_includes_skip simp: skipPatterns_def)
  with assms(5) show ?thesis
    by (auto simp: parseEmailContent_buckets [OF assms(1,2)] data_videoItem data_urlItem)
qed

theorem blocked_domains_dropped_witness:
  "mimeGiving channelEmail (parserInput (RawString [])) = Inr channelEmail \<and>
   parseEmailContent examplePathname (mimeGiving channelEmail) (RawString []) =
     Inr \<lparr>images = [], pdfs = [], urls = [], videos = []\<rparr> \<and>
   ''https://www.youtube.com/watch?v=abc'' \<in> set (cleanedMatches channelEmail) \<and>
   str_includes (toLowerCase ''https://www.youtube.com/watch?v=abc'') ''youtube.com'' \<and>
   detectVideoPlatform ''https://www.youtube.com/watch?v=abc'' = None \<and>
   Text ''https://www.youtube.com/watch?v=abc''
     \<notin> data ` set (videos \<lparr>images = [], pdfs = [], urls = [], videos = []\<rparr>) \<and>
   Text ''https://www.youtube.com/watch?v=abc''
     \<notin> data ` set (urls \<lparr>images = [], pdfs = [], urls = [], videos = []\<rparr>)"
proof -
  have h1: "mimeGiving channelEmail (parserInput (RawString [])) = Inr channelEmail"
    by (simp add: mimeGiving_def)
  have h2: "parseEmailContent examplePathname (mimeGiving channelEmail) (RawString []) =
     Inr \<lparr>images = [], pdfs = [], urls = [], videos = []\<rparr>"
    by code_simp
  have h3: "''https://www.youtube.com/watch?v=abc'' \<in> set (cleanedMatches channelEmail)"
    by code_simp
  have h4: "str_includes (toLowerCase ''https://www.youtube.com/watch?v=abc'') ''youtube.com''"
    by code_simp
  have h5: "detectVideoPlatform ''https://www.youtube.com/watch?v=abc'' = None"
    by code_simp
  from blocked_domains_dropped [OF h1 h2 h3 disjI1 [OF h4] h5] h1 h2 h3 h4 h5
  show ?thesis by (simp only: simp_thms)
qed

text \<open>
  The claim as stated fails on a \<^verbatim>\<open>youtube.com\<close> URL that also contains
  \<^verbatim>\<open>tiktok.com\<close>: the platform detection sees the substring first, and the URL is in
  the videos bucket.
\<close>

theorem blocked_domains_dropped_counterexample:
  "str_includes (toLowerCase redirectUrl) ''youtube.com'' \<and>
   parseEmailContent examplePathname (mimeGiving (textEmail redirectUrl)) (RawString []) =
     Inr \<lparr>images = [], pdfs = [], urls = [], videos = [videoItem redirectUrl tiktok]\<rparr>"
  by code_simp

text \<open>
  C5. The claim says that a message whose MIME structure parses never makes
  \<^verbatim>\<open>parseEmailContent\<close> throw. The code reaches \<^verbatim>\<open>new URL(url)\<close> with the cleaned
  match \<^verbatim>\<open>http://\<close> of the body \<^verbatim>\<open>More at http://...\<close>; on every platform whose
  URL constructor throws on a URL without a host, \<^verbatim>\<open>parseEmailContent\<close> throws a
  \<open>TypeError\<close> although the MIME parse succeeded.
\<close>

theorem invalid_url_aborts:
  assumes "pathname ''http://'' = None"
    and "mime (parserInput raw) = Inr brokenLinkEmail"
  shows "parseEmailContent pathname mime raw = Inl TypeError"
proof -
  have "isLikelyRecipeUrl pathname ''http://'' = Inl TypeError"
    using assms(1) brokenLink_reaches_URL by (simp add: isLikelyRecipeUrl_def Let_def)
  moreover have "match_URL_PATTERN (bodyText brokenLinkEmail) = [''http://...'']"
    by code_simp
  moreover have "cleanUrl ''http://...'' = ''http://''"
    by code_simp
  ultimately show ?thesis
    using assms(2) brokenLink_not_video
    by (simp add: parseEmailContent_def Let_def split: prod.splits)
qed


theorem invalid_url_aborts_witness:
  "examplePathname ''http://'' = None \<and>
   mimeGiving brokenLinkEmail (parserInput (RawString [])) = Inr brokenLinkEmail \<and>
   parseEmailContent examplePathname (mimeGiving brokenLinkEmail) (RawString []) = Inl TypeError"
proof -
  have h1: "examplePathname ''http://'' = None"
    by code_simp
  have h2: "mimeGiving brokenLinkEmail (parserInput (RawString [])) = Inr brokenLinkEmail"
    by (simp add: mimeGiving_def)
  from invalid_url_aborts [of examplePathname "mimeGiving brokenLinkEmail" "RawString []", OF h1 h2]
    h1 h2 show ?thesis by (simp only: simp_thms)
qed


section \<open>Lemmas about claude.ts\<close>

lemma find_PT_None: "find_PT d = None \<longleftrightarrow> \<not> str_includes d ''PT''"
  by (induction d) auto

lemma formatDuration_examples:
  "formatDuration pl (Some ''PT1H30M'') = ''1 hour 30 min''"
  "formatDuration pl (Some ''PT45M'') = ''45 min''"
  "formatDuration pl (Some ''PT2H'') = ''2 hours''"
  by (simp_all add: formatDuration_def digitsThen_def isDigit_def parseInt_def intToString_def
        natToString.simps)

lemma digitsThen_other:
  assumes "list_all isDigit ds"
    and "case rest of [] \<Rightarrow> True | c # cs \<Rightarrow> \<not> isDigit c \<and> (ds = [] \<or> c \<noteq> x)"
  shows "digitsThen x (ds @ rest) = None"
proof -
  have tw: "takeWhile isDigit (ds @ rest) = ds" and dw: "dropWhile isDigit (ds @ rest) = rest"
    using assms
    by (cases rest; simp add: list_all_iff takeWhile_append2 dropWhile_append2
          takeWhile_eq_all_conv dropWhile_eq_Nil_conv)+
  show ?thesis
    using assms(2) by (auto simp: digitsThen_def tw dw split: list.splits)
qed

lemma find_PT_first:
  "\<not> str_includes (pre @ ''P'') ''PT'' \<Longrightarrow> find_PT (pre @ ''PT'' @ r) = Some r"
proof (induction pre)
  case Nil
  then show ?case by simp
next
  case (Cons a pre)
  then have no: "\<not> prefix ''PT'' (a # pre @ ''P'')" and rest: "\<not> str_includes (pre @ ''P'') ''PT''"
    by simp_all
  have "\<not> prefix ''PT'' (a # (pre @ ''PT'' @ r))"
    using no by (cases pre) auto
  with Cons.IH [OF rest] show ?case
    by (simp only: find_PT.simps append_Cons if_False)
qed

lemma partialRecipe_field:
  assumes "partialRecipe obj" and "k \<in> set recipeFields"
  shows "map_of obj k = None \<or> (\<exists>s. map_of obj k = Some (JStr s))"
proof -
  from assms have "case map_of obj k of None \<Rightarrow> True | Some (JStr s) \<Rightarrow> True | _ \<Rightarrow> False"
    by (simp add: partialRecipe_def list_all_iff)
  then show ?thesis by (simp split: option.splits json.splits)
qed

lemma field_textOr:
  assumes "partialRecipe obj" and "k \<in> set recipeFields"
  shows "field pl (JObj obj) k d = Inr (JStr (textOr obj k d))"
  using partialRecipe_field [OF assms]
  by (auto simp: field_def getProp_def bindE_def orElse_def textOr_def)

lemma dropWhile_first: "opn \<notin> set pre \<Longrightarrow> dropWhile (\<lambda>c. c \<noteq> opn) (pre @ opn # rest) = opn # rest"
  by (induction pre) auto

lemma greedySpan_Some:
  assumes "opn \<notin> set pre" and "cls \<notin> set post"
  shows "greedySpan opn cls (pre @ opn # mid @ cls # post) = Some (opn # mid @ [cls])"
proof -
  have "dropWhile (\<lambda>c. c \<noteq> cls) (rev post @ cls # rev mid) = cls # rev mid"
    using assms(2) by (intro dropWhile_first) simp
  then have "rev (dropWhile (\<lambda>c. c \<noteq> cls) (rev (mid @ cls # post))) = mid @ [cls]"
    by simp
  with assms(1) show ?thesis
    by (simp add: greedySpan_def dropWhile_first)
qed

lemma greedySpan_None:
  "greedySpan opn cls s = None \<longleftrightarrow> (\<nexists>pre mid post. s = pre @ opn # mid @ cls # post)"
proof
  assume none: "greedySpan opn cls s = None"
  show "\<nexists>pre mid post. s = pre @ opn # mid @ cls # post"
  proof
    assume "\<exists>pre mid post. s = pre @ opn # mid @ cls # post"
    then obtain pre mid post where s: "s = pre @ opn # mid @ cls # post" by blast
    define pre' where "pre' = takeWhile (\<lambda>c. c \<noteq> opn) pre"
    show False
    proof (cases "opn \<in> set pre")
      case False
      then have "dropWhile (\<lambda>c. c \<noteq> opn) s = opn # mid @ cls # post"
        by (simp add: s dropWhile_first)
      with none show False by (simp add: greedySpan_def)
    next
      case True
      then obtain p1 p2 where p: "pre = p1 @ opn # p2" "opn \<notin> set p1"
        by (meson split_list_first)
      then have "dropWhile (\<lambda>c. c \<noteq> opn) s = opn # p2 @ opn # mid @ cls # post"
        by (simp add: s dropWhile_first)
      with none show False by (simp add: greedySpan_def)
    qed
  qed
next
  assume no: "\<nexists>pre mid post. s = pre @ opn # mid @ cls # post"
  show "greedySpan opn cls s = None"
  proof (cases "dropWhile (\<lambda>c. c \<noteq> opn) s")
    case Nil
    then show ?thesis by (simp only: greedySpan_def list.case)
  next
    case (Cons c rest)
    then have c: "c = opn" using hd_dropWhile [of "\<lambda>c. c \<noteq> opn" s] by auto
    have s: "s = takeWhile (\<lambda>c. c \<noteq> opn) s @ opn # rest"
      using Cons c takeWhile_dropWhile_id [of "\<lambda>c. c \<noteq> opn" s] by simp
    have "cls \<notin> set rest"
    proof
      assume "cls \<in> set rest"
      then obtain b p where "rest = b @ cls # p" by (meson split_list)
      with s have "s = takeWhile (\<lambda>c. c \<noteq> opn) s @ opn # b @ cls # p" by simp
      with no show False by blast
    qed
    with Cons show ?thesis by (simp only: greedySpan_def list.case if_False)
  qed
qed

lemma extractFromPDF_reparse:
  assumes "client \<lparr>model = ''claude-sonnet-4-20250514'', max_tokens = 8192,
                    content = BlockContent [DocumentBlock pdfData, TextBlock PDF_RECIPE_PROMPT]\<rparr>
             = Inr response"
    and "findText response = Some t"
    and "bindE (parseJSON pl (trim t)) (validateAll pl) = Inl err"
  shows "trim t = pre @ CHR ''['' # mid @ CHR '']'' # post \<Longrightarrow>
           CHR ''['' \<notin> set pre \<Longrightarrow> CHR '']'' \<notin> set post \<Longrightarrow>
           extractFromPDF pl client pdfData =
             bindE (parseJSON pl (CHR ''['' # mid @ '']'')) (validateAll pl)"
    and "\<nexists>pre mid post. trim t = pre @ CHR ''['' # mid @ CHR '']'' # post \<Longrightarrow>
           trim t = pre @ CHR ''{'' # mid @ CHR ''}'' # post \<Longrightarrow>
           CHR ''{'' \<notin> set pre \<Longrightarrow> CHR ''}'' \<notin> set post \<Longrightarrow>
           extractFromPDF pl client pdfData =
             bindE (parseJSON pl (CHR ''{'' # mid @ ''}'')) (validateAll pl)"
    and "\<nexists>pre mid post. trim t = pre @ CHR ''['' # mid @ CHR '']'' # post \<Longrightarrow>
         \<nexists>pre mid post. trim t = pre @ CHR ''{'' # mid @ CHR ''}'' # post \<Longrightarrow>
           extractFromPDF pl client pdfData =
             Inl (Error (''Failed to parse PDF recipe JSON: '' @ take 200 (trim t)))"
proof -
  show "extractFromPDF pl client pdfData =
          bindE (parseJSON pl (CHR ''['' # mid @ '']'')) (validateAll pl)"
    if "trim t = pre @ CHR ''['' # mid @ CHR '']'' # post" "CHR ''['' \<notin> set pre"
      "CHR '']'' \<notin> set post"
  proof -
    from that have "greedySpan CHR ''['' CHR '']'' (trim t) = Some (CHR ''['' # mid @ '']'')"
      by (simp add: greedySpan_Some)
    with assms show ?thesis
      by (simp add: extractFromPDF_def Let_def bindE_def)
  qed
  show "extractFromPDF pl client pdfData =
          bindE (parseJSON pl (CHR ''{'' # mid @ ''}'')) (validateAll pl)"
    if "\<nexists>pre mid post. trim t = pre @ CHR ''['' # mid @ CHR '']'' # post"
      "trim t = pre @ CHR ''{'' # mid @ CHR ''}'' # post" "CHR ''{'' \<notin> set pre"
      "CHR ''}'' \<notin> set post"
  proof -
    from that(1) have "greedySpan CHR ''['' CHR '']'' (trim t) = None"
      by (simp add: greedySpan_None)
    moreover from that(2-4)
    have "greedySpan CHR ''{'' CHR ''}'' (trim t) = Some (CHR ''{'' # mid @ ''}'')"
      by (simp add: greedySpan_Some)
    ultimately show ?thesis
      using assms by (simp add: extractFromPDF_def Let_def bindE_def)
  qed
  show "extractFromPDF pl client pdfData =
          Inl (Error (''Failed to parse PDF recipe JSON: '' @ take 200 (trim t)))"
    if "\<nexists>pre mid post. trim t = pre @ CHR ''['' # mid @ CHR '']'' # post"
      "\<nexists>pre mid post. trim t = pre @ CHR ''{'' # mid @ CHR ''}'' # post"
  proof -
    from that have "greedySpan CHR ''['' CHR '']'' (trim t) = None"
      "greedySpan CHR ''{'' CHR ''}'' (trim t) = None"
      by (simp_all add: greedySpan_None)
    with assms show ?thesis
      by (simp add: extractFromPDF_def Let_def bindE_def)
  qed
qed

lemma recipeNode_textual: "recipeNode pl obj u = Inr (Some r) \<Longrightarrow> textual r"
  unfolding recipeNode_def bindE_def textual_def
  by (simp split: sum.splits if_splits) auto

lemma extract_textual:
  "extractRecipeFromJsonLd pl d u = Inr (Some r) \<Longrightarrow> textual r"
  "extractFromItems pl items u = Inr (Some r) \<Longrightarrow> textual r"
proof (induction pl d u and pl items u rule: extractRecipeFromJsonLd_extractFromItems.induct)
  case (6 pl obj sourceUrl)
  then show ?case
    by (auto simp: Let_def dest: recipeNode_textual split: option.splits if_splits)
next
  case (8 pl item items sourceUrl)
  then show ?case
    by (auto split: sum.splits option.splits if_splits)
qed simp_all

lemma jsonLdLoop_textual:
  "jsonLdLoop pl u ms cur = Some r \<Longrightarrow> (\<And>r'. cur = Some r' \<Longrightarrow> textual r') \<Longrightarrow> textual r"
proof (induction ms arbitrary: cur)
  case Nil
  then show ?case by simp
next
  case (Cons m ms)
  let ?res = "bindE (parseJSON pl (removeFirst_ci closeTag (removeFirst_ci openTag m)))
                (\<lambda>parsed. extractRecipeFromJsonLd pl parsed u)"
  show ?case
  proof (cases ?res)
    case (Inl e)
    with Cons.prems(1) have "jsonLdLoop pl u ms cur = Some r" by (simp add: Let_def)
    from Cons.IH [OF this] Cons.prems(2) show ?thesis by simp
  next
    case (Inr found)
    show ?thesis
    proof (cases found)
      case None
      with Inr Cons.prems(1) have "jsonLdLoop pl u ms None = Some r" by (simp add: Let_def)
      from Cons.IH [OF this] show ?thesis by simp
    next
      case (Some recipe)
      with Inr have t: "textual recipe"
        by (auto simp: bindE_def dest: extract_textual(1) split: sum.splits)
      show ?thesis
      proof (cases "name recipe \<noteq> JStr ''NO_RECIPE''")
        case True
        with Inr Some Cons.prems(1) have "r = recipe" by (simp add: Let_def)
        with t show ?thesis by simp
      next
        case False
        with Inr Some Cons.prems(1) have "jsonLdLoop pl u ms (Some recipe) = Some r"
          by (simp add: Let_def)
        from Cons.IH [OF this] t show ?thesis by simp
      qed
    qed
  qed
qed

lemma fallback_eq:
  "fallback pl client u html = ([urlRequest u html], answerTo pl client u html (urlRequest u html))"
  unfolding fallback_def answerTo_def finishRecipe_def Let_def metaImage_def
  by (auto intro!: arg_cong2 [where f = bindE] ext)

lemma extractFromURL_cases:
  assumes "fetch u = Inr response" and "ok response" and "body response = Inr html"
  shows "extractFromURL pl fetch client u =
           (case jsonLdLoop pl u (match_jsonLd html) None of
              None \<Rightarrow> ([urlRequest u html], answerTo pl client u html (urlRequest u html))
            | Some recipe \<Rightarrow>
                if truthy pl (Some (ingredients recipe)) \<and> truthy pl (Some (directions recipe))
                then ([], Inr recipe)
                else ([urlRequest u html], answerTo pl client u html (urlRequest u html)))"
  using assms by (simp add: extractFromURL_def Let_def fallback_eq split: option.splits)

lemma soup_answer:
  "answerTo examplePlatform soupClient ''https://example.com/soup'' soupPage
     (urlRequest ''https://example.com/soup'' soupPage) = Inr soupResult"
proof -
  have p: "parseRecipeResponse examplePlatform [ResponseText soupAnswer] =
     Inr \<lparr>name = JStr ''Soup'', ingredients = JStr ''water'', directions = JStr ''1. Boil'',
          prep_time = JStr [], cook_time = JStr [], servings = JStr [], source = JStr [],
          source_url = JStr [], notes = JStr [], image_url = None\<rparr>"
    by code_simp
  have m: "metaImage soupPage = []"
    by code_simp
  show ?thesis
    by (simp add: answerTo_def soupClient_def clientExpecting_def bindE_def p m finishRecipe_def
          soupResult_def)
qed

lemma soup_loop:
  "jsonLdLoop examplePlatform ''https://example.com/soup'' (match_jsonLd soupPage) None
     = Some soupSchema"
  by code_simp

lemma soup_extract:
  "extractFromURL examplePlatform (fetchGiving soupPage) soupClient ''https://example.com/soup''
     = ([urlRequest ''https://example.com/soup'' soupPage], Inr soupResult)"
proof -
  have f: "fetchGiving soupPage ''https://example.com/soup'' = Inr (okResponse soupPage)"
    "ok (okResponse soupPage)" "body (okResponse soupPage) = Inr soupPage"
    by (simp_all add: fetchGiving_def okResponse_def)
  have d: "truthy examplePlatform (Some (directions soupSchema)) = False"
    by code_simp
  show ?thesis
    by (simp add: extractFromURL_cases [where fetch = "fetchGiving soupPage" and html = soupPage, OF f]
          soup_loop d soup_answer)
qed

section \<open>Claims about claude.ts\<close>

text \<open>
  C4 (as amended). \<^verbatim>\<open>formatDuration\<close> maps \<^verbatim>\<open>PT1H30M\<close> to \<^verbatim>\<open>1 hour 30 min\<close>,
  \<^verbatim>\<open>PT45M\<close> to \<^verbatim>\<open>45 min\<close> and \<^verbatim>\<open>PT2H\<close> to \<^verbatim>\<open>2 hours\<close>; a missing or empty
  duration to the empty string; a non-empty string without \<^verbatim>\<open>PT\<close> to itself,
  unchanged; and a string to the empty string when, behind its first \<^verbatim>\<open>PT\<close>, the
  digits (if any) are followed by neither \<^verbatim>\<open>H\<close> nor \<^verbatim>\<open>M\<close>.
\<close>

theorem formatDuration_cases:
  "formatDuration pl (Some ''PT1H30M'') = ''1 hour 30 min'' \<and>
   formatDuration pl (Some ''PT45M'') = ''45 min'' \<and>
   formatDuration pl (Some ''PT2H'') = ''2 hours'' \<and>
   formatDuration pl None = [] \<and>
   formatDuration pl (Some []) = [] \<and>
   (\<forall>d. d \<noteq> [] \<and> \<not> str_includes d ''PT'' \<longrightarrow> formatDuration pl (Some d) = d) \<and>
   (\<forall>pre ds rest.
      \<not> str_includes (pre @ ''P'') ''PT'' \<and> list_all isDigit ds \<and>
      (case rest of
         [] \<Rightarrow> True
       | c # cs \<Rightarrow> \<not> isDigit c \<and> (ds = [] \<or> (c \<noteq> CHR ''H'' \<and> c \<noteq> CHR ''M'')))
      \<longrightarrow> formatDuration pl (Some (pre @ ''PT'' @ ds @ rest)) = [])"
proof -
  have a: "formatDuration pl None = []" "formatDuration pl (Some []) = []"
    by (simp_all add: formatDuration_def)
  have b: "formatDuration pl (Some d) = d" if "d \<noteq> []" "\<not> str_includes d ''PT''" for d
    using that by (simp add: formatDuration_def find_PT_None [symmetric])
  have c: "formatDuration pl (Some (pre @ ''PT'' @ ds @ rest)) = []"
    if "\<not> str_includes (pre @ ''P'') ''PT''" "list_all isDigit ds"
      "case rest of
         [] \<Rightarrow> True
       | c # cs \<Rightarrow> \<not> isDigit c \<and> (ds = [] \<or> (c \<noteq> CHR ''H'' \<and> c \<noteq> CHR ''M''))"
    for pre ds rest
  proof -
    have "find_PT (pre @ ''PT'' @ ds @ rest) = Some (ds @ rest)"
      using that(1) by (rule find_PT_first)
    moreover have "digitsThen CHR ''H'' (ds @ rest) = None"
      using that(2,3) by (intro digitsThen_other) (auto split: list.splits)
    moreover have "digitsThen CHR ''M'' (ds @ rest) = None"
      using that(2,3) by (intro digitsThen_other) (auto split: list.splits)
    ultimately show ?thesis by (simp add: formatDuration_def)
  qed
  from formatDuration_examples a b c show ?thesis by blast
qed

theorem formatDuration_cases_witness:
  "''30 minutes'' \<noteq> [] \<and> \<not> str_includes ''30 minutes'' ''PT'' \<and>
   formatDuration examplePlatform (Some ''30 minutes'') = ''30 minutes'' \<and>
   \<not> str_includes (''about '' @ ''P'') ''PT'' \<and> list_all isDigit ''90'' \<and>
   formatDuration examplePlatform (Some (''about '' @ ''PT'' @ ''90'' @ ''S'')) = []"
proof -
  have h1: "''30 minutes'' \<noteq> [] \<and> \<not> str_includes ''30 minutes'' ''PT''" by code_simp
  have h2: "\<not> str_includes (''about '' @ ''P'') ''PT'' \<and> list_all isDigit ''90'' \<and>
            (case ''S'' of
               [] \<Rightarrow> True
             | c # cs \<Rightarrow> \<not> isDigit c \<and> (''90'' = [] \<or> (c \<noteq> CHR ''H'' \<and> c \<noteq> CHR ''M'')))"
    by code_simp
  from formatDuration_cases [of examplePlatform] h1
  have "formatDuration examplePlatform (Some ''30 minutes'') = ''30 minutes''" by blast
  moreover from formatDuration_cases [of examplePlatform] h2
  have "formatDuration examplePlatform (Some (''about '' @ ''PT'' @ ''90'' @ ''S'')) = []" by blast
  ultimately show ?thesis using h1 h2 by (simp only: simp_thms)
qed

text \<open>
  The claim as stated, every malformed string to the empty string, fails on a duration
  written in words: without \<^verbatim>\<open>PT\<close> the pattern does not match and the string is
  returned as it is.
\<close>

theorem formatDuration_cases_counterexample:
  "formatDuration examplePlatform (Some ''30 minutes'') = ''30 minutes'' \<and>
   formatDuration examplePlatform (Some ''30 minutes'') \<noteq> []"
  by code_simp

text \<open>
  C6. For a fetched page, \<^verbatim>\<open>extractFromURL\<close> either returns a recipe of the page's
  own data with no request, or its result is what the service answers to one request,
  \<open>urlRequest u html\<close>, whose text holds the page as \<^verbatim>\<open>truncatedHtml\<close> leaves it. For a
  page longer than 50000 that is the first 50000 code units followed by the marker
  \<^verbatim>\<open>...\<close>: behind the first 50000 the text is the marker, once, and nothing else.
  A page of at most 50000 is sent unchanged, with no marker appended.
\<close>

theorem truncation_bound:
  assumes "fetch u = Inr response" and "ok response" and "body response = Inr html"
  shows "((\<exists>recipe. extractFromURL pl fetch client u = ([], Inr recipe)) \<or>
          extractFromURL pl fetch client u =
            ([urlRequest u html],
             bindE (client (urlRequest u html)) (\<lambda>response.
             bindE (parseRecipeResponse pl response) (\<lambda>answer.
             Inr (finishRecipe pl u html answer))))) \<and>
         urlRequest u html =
           \<lparr>model = ''claude-sonnet-4-20250514'', max_tokens = 4096,
            content = StringContent (''Here is the HTML content from '' @ u @ '':\<newline>\<newline>''
                                       @ truncatedHtml html @ ''\<newline>\<newline>'' @ URL_RECIPE_PROMPT)\<rparr> \<and>
         (length html > 50000 \<longrightarrow>
            truncatedHtml html = take 50000 html @ ''...'' \<and>
            length (truncatedHtml html) = 50003 \<and>
            drop 50000 (truncatedHtml html) = ''...'' \<and>
            occurrences ''...'' (drop 50000 (truncatedHtml html)) = 1) \<and>
         (length html \<le> 50000 \<longrightarrow> truncatedHtml html = html)"
proof -
  have "(\<exists>recipe. extractFromURL pl fetch client u = ([], Inr recipe)) \<or>
        extractFromURL pl fetch client u =
          ([urlRequest u html],
           bindE (client (urlRequest u html)) (\<lambda>response.
           bindE (parseRecipeResponse pl response) (\<lambda>answer.
           Inr (finishRecipe pl u html answer))))"
    by (simp add: extractFromURL_cases [where fetch = fetch and u = u and response = response
            and html = html, OF assms] answerTo_def split: option.splits)
  then show ?thesis
    by (simp add: urlRequest_def truncatedHtml_def)
qed

theorem truncation_bound_witness:
  "fetchGiving dottedHtml ''https://example.com/long'' = Inr (okResponse dottedHtml) \<and>
   ok (okResponse dottedHtml) \<and> body (okResponse dottedHtml) = Inr dottedHtml \<and>
   length dottedHtml > 50000 \<and>
   truncatedHtml dottedHtml = take 50000 dottedHtml @ ''...'' \<and>
   length (truncatedHtml dottedHtml) = 50003 \<and>
   occurrences ''...'' (drop 50000 (truncatedHtml dottedHtml)) = 1 \<and>
   fetchGiving soupPage ''https://example.com/soup'' = Inr (okResponse soupPage) \<and>
   length soupPage \<le> 50000 \<and>
   truncatedHtml soupPage = soupPage \<and>
   soupClient (urlRequest ''https://example.com/soup'' soupPage) = Inr [ResponseText soupAnswer] \<and>
   extractFromURL examplePlatform (fetchGiving soupPage) soupClient ''https://example.com/soup''
     = ([urlRequest ''https://example.com/soup'' soupPage], Inr soupResult)"
proof -
  have f1: "fetchGiving dottedHtml ''https://example.com/long'' = Inr (okResponse dottedHtml)"
    by (simp add: fetchGiving_def okResponse_def)
  have f2: "ok (okResponse dottedHtml)" "body (okResponse dottedHtml) = Inr dottedHtml"
    by (simp_all add: okResponse_def)
  have h1: "length dottedHtml > 50000" by (simp add: dottedHtml_def)
  have g1: "fetchGiving soupPage ''https://example.com/soup'' = Inr (okResponse soupPage)"
    by (simp add: fetchGiving_def okResponse_def)
  have g2: "ok (okResponse soupPage)" "body (okResponse soupPage) = Inr soupPage"
    by (simp_all add: okResponse_def)
  have h2: "length soupPage \<le> 50000" by (simp add: soupPage_def)
  have c1: "soupClient (urlRequest ''https://example.com/soup'' soupPage)
              = Inr [ResponseText soupAnswer]"
    by (simp add: soupClient_def clientExpecting_def)
  from truncation_bound
         [where fetch = "fetchGiving dottedHtml" and u = "''https://example.com/long''"
            and pl = examplePlatform and client = soupClient, OF f1 f2] h1
  have a: "truncatedHtml dottedHtml = take 50000 dottedHtml @ ''...''"
    and b: "length (truncatedHtml dottedHtml) = 50003"
    and c: "occurrences ''...'' (drop 50000 (truncatedHtml dottedHtml)) = 1"
    by blast+
  from truncation_bound
         [where fetch = "fetchGiving soupPage" and u = "''https://example.com/soup''"
            and pl = examplePlatform and client = soupClient, OF g1 g2] h2
  have d: "truncatedHtml soupPage = soupPage"
    by blast
  from f1 f2 h1 a b c g1 h2 d c1 soup_extract show ?thesis by blast
qed

text \<open>
  C7 (as amended). On a partially populated recipe object (each field absent, or a
  string) \<^verbatim>\<open>validateRecipe\<close> returns, every field but \<^verbatim>\<open>image_url\<close> is a string, the
  empty string when the field is absent, the placeholder for a name that is absent or
  empty; and \<^verbatim>\<open>image_url\<close> is absent when the input's is missing or empty.
\<close>

theorem validateRecipe_total:
  assumes "partialRecipe obj"
  shows "validateRecipe pl (JObj obj) =
           Inr \<lparr>name = JStr (textOr obj ''name'' ''Untitled Recipe''),
                ingredients = JStr (textOr obj ''ingredients'' []),
                directions = JStr (textOr obj ''directions'' []),
                prep_time = JStr (textOr obj ''prep_time'' []),
                cook_time = JStr (textOr obj ''cook_time'' []),
                servings = JStr (textOr obj ''servings'' []),
                source = JStr (textOr obj ''source'' []),
                source_url = JStr (textOr obj ''source_url'' []),
                notes = JStr (textOr obj ''notes'' []),
                image_url = (case map_of obj ''image_url'' of
                               Some (JStr s) \<Rightarrow> if s = [] then None else Some (JStr s)
                             | _ \<Rightarrow> None)\<rparr>"
proof -
  have img: "map_of obj ''image_url'' = None \<or> (\<exists>s. map_of obj ''image_url'' = Some (JStr s))"
    using assms by (rule partialRecipe_field) (simp add: recipeFields_def)
  have f: "field pl (JObj obj) k d = Inr (JStr (textOr obj k d))" if "k \<in> set recipeFields" for k d
    using assms that by (rule field_textOr)
  show ?thesis
    using img
    by (auto simp: validateRecipe_def f recipeFields_def bindE_def getProp_def)
qed

theorem validateRecipe_total_witness:
  "partialRecipe emptyNameObject \<and>
   validateRecipe examplePlatform (JObj emptyNameObject) =
     Inr \<lparr>name = JStr ''Untitled Recipe'', ingredients = JStr ''water'', directions = JStr [],
          prep_time = JStr [], cook_time = JStr [], servings = JStr [], source = JStr [],
          source_url = JStr [], notes = JStr [], image_url = None\<rparr>"
proof -
  have h: "partialRecipe emptyNameObject" by code_simp
  have e: "textOr emptyNameObject ''name'' ''Untitled Recipe'' = ''Untitled Recipe''"
    "textOr emptyNameObject ''ingredients'' [] = ''water''"
    "textOr emptyNameObject ''directions'' [] = []"
    "textOr emptyNameObject ''prep_time'' [] = []"
    "textOr emptyNameObject ''cook_time'' [] = []"
    "textOr emptyNameObject ''servings'' [] = []"
    "textOr emptyNameObject ''source'' [] = []"
    "textOr emptyNameObject ''source_url'' [] = []"
    "textOr emptyNameObject ''notes'' [] = []"
    "map_of emptyNameObject ''image_url'' = Some (JStr [])"
    by code_simp+
  from validateRecipe_total [OF h, of examplePlatform] h show ?thesis
    by (simp add: e)
qed

text \<open>
  The claim as stated, the placeholder only for an absent name, fails on a name that is
  present and empty.
\<close>

theorem validateRecipe_total_counterexample:
  "map_of emptyNameObject ''name'' = Some (JStr []) \<and>
   validateRecipe examplePlatform (JObj emptyNameObject) =
     Inr \<lparr>name = JStr ''Untitled Recipe'', ingredients = JStr ''water'', directions = JStr [],
          prep_time = JStr [], cook_time = JStr [], servings = JStr [], source = JStr [],
          source_url = JStr [], notes = JStr [], image_url = None\<rparr>"
  by code_simp

text \<open>
  C9 (as amended). When the direct parse of the response fails, \<^verbatim>\<open>parseRecipeResponse\<close>
  re-parses one span, the text from the first \<^verbatim>\<open>{\<close> to the last \<^verbatim>\<open>}\<close>, and
  returns or throws what that parse and the normalisation give; it throws its own
  parse error when the text has no such span. (\<open>extractFromPDF_reparse\<close> is the same
  for documents, with the span from the first \<^verbatim>\<open>[\<close> to the last \<^verbatim>\<open>]\<close> tried first.)
\<close>

theorem greedy_span_reparse:
  assumes "findText response = Some t"
    and "bindE (parseJSON pl (trim t)) (validateRecipe pl) = Inl err"
  shows "(\<forall>pre mid post.
            trim t = pre @ CHR ''{'' # mid @ CHR ''}'' # post \<and>
            CHR ''{'' \<notin> set pre \<and> CHR ''}'' \<notin> set post \<longrightarrow>
            parseRecipeResponse pl response =
              bindE (parseJSON pl (CHR ''{'' # mid @ ''}'')) (validateRecipe pl)) \<and>
         ((\<nexists>pre mid post. trim t = pre @ CHR ''{'' # mid @ CHR ''}'' # post) \<longrightarrow>
            parseRecipeResponse pl response =
              Inl (Error (''Failed to parse recipe JSON: '' @ take 200 (trim t))))"
proof (intro conjI allI impI)
  fix pre mid post
  assume "trim t = pre @ CHR ''{'' # mid @ CHR ''}'' # post \<and>
          CHR ''{'' \<notin> set pre \<and> CHR ''}'' \<notin> set post"
  then have "greedySpan CHR ''{'' CHR ''}'' (trim t) = Some (CHR ''{'' # mid @ ''}'')"
    by (simp add: greedySpan_Some)
  with assms show "parseRecipeResponse pl response =
                     bindE (parseJSON pl (CHR ''{'' # mid @ ''}'')) (validateRecipe pl)"
    by (simp add: parseRecipeResponse_def Let_def)
next
  assume "\<nexists>pre mid post. trim t = pre @ CHR ''{'' # mid @ CHR ''}'' # post"
  then have "greedySpan CHR ''{'' CHR ''}'' (trim t) = None"
    by (simp add: greedySpan_None)
  with assms show "parseRecipeResponse pl response =
                     Inl (Error (''Failed to parse recipe JSON: '' @ take 200 (trim t)))"
    by (simp add: parseRecipeResponse_def Let_def)
qed

theorem greedy_span_reparse_witness:
  \<open>findText [ResponseText chattyAnswer] = Some chattyAnswer \<and>
   bindE (parseJSON examplePlatform (trim chattyAnswer)) (validateRecipe examplePlatform) = Inl SyntaxError \<and>
   trim chattyAnswer = [] @ CHR ''{'' # ''"name":"A"} Enjoy! {smile'' @ CHR ''}'' # [] \<and>
   parseRecipeResponse examplePlatform [ResponseText chattyAnswer] =
     bindE (parseJSON examplePlatform (CHR ''{'' # ''"name":"A"} Enjoy! {smile'' @ ''}''))
       (validateRecipe examplePlatform) \<and>
   findText [ResponseText ''I found no recipe.''] = Some ''I found no recipe.'' \<and>
   bindE (parseJSON examplePlatform (trim ''I found no recipe.'')) (validateRecipe examplePlatform)
     = Inl SyntaxError \<and>
   parseRecipeResponse examplePlatform [ResponseText ''I found no recipe.''] =
     Inl (Error (''Failed to parse recipe JSON: '' @ take 200 (trim ''I found no recipe.'')))\<close>
proof -
  have h1: "findText [ResponseText chattyAnswer] = Some chattyAnswer" by simp
  have h2: "bindE (parseJSON examplePlatform (trim chattyAnswer)) (validateRecipe examplePlatform)
              = Inl SyntaxError" by code_simp
  have h3: \<open>trim chattyAnswer = [] @ CHR ''{'' # ''"name":"A"} Enjoy! {smile'' @ CHR ''}'' # [] \<and>
            CHR ''{'' \<notin> set [] \<and> CHR ''}'' \<notin> set []\<close> by code_simp
  have g1: "findText [ResponseText ''I found no recipe.''] = Some ''I found no recipe.''" by simp
  have g2: "bindE (parseJSON examplePlatform (trim ''I found no recipe.''))
              (validateRecipe examplePlatform) = Inl SyntaxError" by code_simp
  have g3: "\<nexists>pre mid post. trim ''I found no recipe.'' = pre @ CHR ''{'' # mid @ CHR ''}'' # post"
  proof -
    have "greedySpan CHR ''{'' CHR ''}'' (trim ''I found no recipe.'') = None" by code_simp
    then show ?thesis by (simp add: greedySpan_None)
  qed
  from greedy_span_reparse [OF h1 h2] h3
  have a: \<open>parseRecipeResponse examplePlatform [ResponseText chattyAnswer] =
     bindE (parseJSON examplePlatform (CHR ''{'' # ''"name":"A"} Enjoy! {smile'' @ ''}''))
       (validateRecipe examplePlatform)\<close> by blast
  from greedy_span_reparse [OF g1 g2] g3
  have b: "parseRecipeResponse examplePlatform [ResponseText ''I found no recipe.''] =
     Inl (Error (''Failed to parse recipe JSON: '' @ take 200 (trim ''I found no recipe.'')))"
    by blast
  from a b h1 h2 h3 g1 g2 show ?thesis by blast
qed

text \<open>
  The claim as stated, a throw only when no brace-delimited span is valid JSON, fails on
  a response with a valid object followed by prose that holds a brace: the one span
  tried runs to the last brace, and the parser throws.
\<close>

theorem greedy_span_reparse_counterexample:
  \<open>parseRecipeResponse examplePlatform [ResponseText chattyAnswer] = Inl SyntaxError \<and>
   chattyAnswer = ''{"name":"A"}'' @ '' Enjoy! {smile}'' \<and>
   bindE (parseJSON examplePlatform ''{"name":"A"}'') (validateRecipe examplePlatform) =
     Inr \<lparr>name = JStr ''A'', ingredients = JStr [], directions = JStr [], prep_time = JStr [],
          cook_time = JStr [], servings = JStr [], source = JStr [], source_url = JStr [],
          notes = JStr [], image_url = None\<rparr>\<close>
  by code_simp

text \<open>
  C3. For a fetched page, when the walk over the JSON-LD blocks ends on a recipe whose
  ingredients or directions are empty, \<^verbatim>\<open>extractFromURL\<close> does not return it: it
  applies the service to the request built from the page, whose text holds the page's
  HTML, and returns what the response gives. It returns a recipe without any request only
  when the walk ended on that recipe and both its ingredients and its directions are
  non-empty strings.
\<close>

theorem incomplete_schema_falls_back:
  assumes "fetch u = Inr response" and "ok response" and "body response = Inr html"
  shows "(\<forall>recipe. jsonLdLoop pl u (match_jsonLd html) None = Some recipe \<and>
                   (ingredients recipe = JStr [] \<or> directions recipe = JStr []) \<longrightarrow>
            extractFromURL pl fetch client u =
              ([urlRequest u html],
               bindE (client (urlRequest u html)) (\<lambda>response.
               bindE (parseRecipeResponse pl response) (\<lambda>answer.
               Inr (finishRecipe pl u html answer))))) \<and>
         content (urlRequest u html) =
           StringContent (''Here is the HTML content from '' @ u @ '':\<newline>\<newline>''
                            @ truncatedHtml html @ ''\<newline>\<newline>'' @ URL_RECIPE_PROMPT) \<and>
         (\<forall>recipe. extractFromURL pl fetch client u = ([], Inr recipe) \<longrightarrow>
            jsonLdLoop pl u (match_jsonLd html) None = Some recipe \<and>
            (\<exists>a b. ingredients recipe = JStr a \<and> a \<noteq> [] \<and> directions recipe = JStr b \<and> b \<noteq> []))"
proof (intro conjI allI impI)
  fix recipe
  assume a: "jsonLdLoop pl u (match_jsonLd html) None = Some recipe \<and>
             (ingredients recipe = JStr [] \<or> directions recipe = JStr [])"
  then have "\<not> (truthy pl (Some (ingredients recipe)) \<and> truthy pl (Some (directions recipe)))"
    by auto
  with a show "extractFromURL pl fetch client u =
              ([urlRequest u html],
               bindE (client (urlRequest u html)) (\<lambda>response.
               bindE (parseRecipeResponse pl response) (\<lambda>answer.
               Inr (finishRecipe pl u html answer))))"
    by (simp add: extractFromURL_cases [where fetch = fetch and u = u and response = response and html = html, OF assms] answerTo_def)
next
  show "content (urlRequest u html) =
           StringContent (''Here is the HTML content from '' @ u @ '':\<newline>\<newline>''
                            @ truncatedHtml html @ ''\<newline>\<newline>'' @ URL_RECIPE_PROMPT)"
    by (simp add: urlRequest_def)
next
  fix recipe
  assume r: "extractFromURL pl fetch client u = ([], Inr recipe)"
  then have loop: "jsonLdLoop pl u (match_jsonLd html) None = Some recipe"
    and t: "truthy pl (Some (ingredients recipe))" "truthy pl (Some (directions recipe))"
    by (auto simp: extractFromURL_cases [where fetch = fetch and u = u and response = response and html = html, OF assms] split: option.splits if_splits)
  from loop have "textual recipe" by (rule jsonLdLoop_textual) simp
  with t have "\<exists>a b. ingredients recipe = JStr a \<and> a \<noteq> [] \<and> directions recipe = JStr b \<and> b \<noteq> []"
    by (auto simp: textual_def)
  with loop show "jsonLdLoop pl u (match_jsonLd html) None = Some recipe"
    and "\<exists>a b. ingredients recipe = JStr a \<and> a \<noteq> [] \<and> directions recipe = JStr b \<and> b \<noteq> []"
    by simp_all
qed

theorem incomplete_schema_falls_back_witness:
  "fetchGiving soupPage ''https://example.com/soup'' = Inr (okResponse soupPage) \<and>
   ok (okResponse soupPage) \<and> body (okResponse soupPage) = Inr soupPage \<and>
   jsonLdLoop examplePlatform ''https://example.com/soup'' (match_jsonLd soupPage) None
     = Some soupSchema \<and>
   directions soupSchema = JStr [] \<and>
   soupClient (urlRequest ''https://example.com/soup'' soupPage) = Inr [ResponseText soupAnswer] \<and>
   extractFromURL examplePlatform (fetchGiving soupPage) soupClient ''https://example.com/soup''
     = ([urlRequest ''https://example.com/soup'' soupPage], Inr soupResult) \<and>
   fetchGiving teaPage ''https://example.com/tea'' = Inr (okResponse teaPage) \<and>
   extractFromURL examplePlatform (fetchGiving teaPage) (clientAnswering soupAnswer) ''https://example.com/tea''
     = ([], Inr teaSchema) \<and>
   jsonLdLoop examplePlatform ''https://example.com/tea'' (match_jsonLd teaPage) None
     = Some teaSchema"
proof -
  have f1: "fetchGiving soupPage ''https://example.com/soup'' = Inr (okResponse soupPage)"
    by (simp add: fetchGiving_def okResponse_def)
  have f2: "ok (okResponse soupPage)" "body (okResponse soupPage) = Inr soupPage"
    by (simp_all add: okResponse_def)
  have d1: "directions soupSchema = JStr []" by code_simp
  have l1: "jsonLdLoop examplePlatform ''https://example.com/soup'' (match_jsonLd soupPage) None
              = Some soupSchema \<and>
            (ingredients soupSchema = JStr [] \<or> directions soupSchema = JStr [])"
    using soup_loop d1 by simp
  have c1: "soupClient (urlRequest ''https://example.com/soup'' soupPage)
              = Inr [ResponseText soupAnswer]"
    by (simp add: soupClient_def clientExpecting_def)
  have a1: "bindE (soupClient (urlRequest ''https://example.com/soup'' soupPage)) (\<lambda>response.
            bindE (parseRecipeResponse examplePlatform response) (\<lambda>answer.
            Inr (finishRecipe examplePlatform ''https://example.com/soup'' soupPage answer)))
            = Inr soupResult"
    using soup_answer by (simp add: answerTo_def)
  have g1: "fetchGiving teaPage ''https://example.com/tea'' = Inr (okResponse teaPage)"
    by (simp add: fetchGiving_def okResponse_def)
  have g2: "ok (okResponse teaPage)" "body (okResponse teaPage) = Inr teaPage"
    by (simp_all add: okResponse_def)
  have t1: "extractFromURL examplePlatform (fetchGiving teaPage) (clientAnswering soupAnswer)
              ''https://example.com/tea'' = ([], Inr teaSchema)"
    by code_simp
  from incomplete_schema_falls_back
         [where fetch = "fetchGiving soupPage" and u = "''https://example.com/soup''"
            and pl = examplePlatform and client = soupClient, OF f1 f2] l1
  have "extractFromURL examplePlatform (fetchGiving soupPage) soupClient ''https://example.com/soup''
          = ([urlRequest ''https://example.com/soup'' soupPage],
             bindE (soupClient (urlRequest ''https://example.com/soup'' soupPage)) (\<lambda>response.
             bindE (parseRecipeResponse examplePlatform response) (\<lambda>answer.
             Inr (finishRecipe examplePlatform ''https://example.com/soup'' soupPage answer))))"
    by blast
  then have a: "extractFromURL examplePlatform (fetchGiving soupPage) soupClient
                  ''https://example.com/soup''
                = ([urlRequest ''https://example.com/soup'' soupPage], Inr soupResult)"
    by (simp only: a1)
  from incomplete_schema_falls_back
         [where fetch = "fetchGiving teaPage" and u = "''https://example.com/tea''"
            and pl = examplePlatform and client = "clientAnswering soupAnswer", OF g1 g2] t1
  have c: "jsonLdLoop examplePlatform ''https://example.com/tea'' (match_jsonLd teaPage) None
             = Some teaSchema"
    by blast
  from f1 f2 soup_loop d1 c1 a g1 t1 c show ?thesis by blast
qed

section \<open>Lemmas about index.ts\<close>

lemma saveRecipe_sinkCalls:
  "sinkCalls (fst (saveRecipe pl createRecipe recipe sourceDesc st)) = sinkCalls st \<or>
   (\<not> sentinel recipe \<and>
    sinkCalls (fst (saveRecipe pl createRecipe recipe sourceDesc st)) = sinkCalls st @ [recipe])"
  by (auto simp: saveRecipe_def sentinel_def Let_def split: sum.splits)

lemma saveAll_never_submits_sentinel:
  "\<exists>submitted. sinkCalls (fst (saveAll pl createRecipe recipes sourceDesc st))
                   = sinkCalls st @ submitted \<and>
                 (\<forall>r \<in> set submitted. r \<in> set recipes \<and> \<not> sentinel r)"
proof (induction recipes arbitrary: st)
  case Nil
  then show ?case by simp
next
  case (Cons recipe recipes)
  obtain st1 thrown where s: "saveRecipe pl createRecipe recipe sourceDesc st = (st1, thrown)"
    by (cases "saveRecipe pl createRecipe recipe sourceDesc st")
  from saveRecipe_sinkCalls [of pl createRecipe recipe sourceDesc st] s
  obtain first where f: "sinkCalls st1 = sinkCalls st @ first"
    "\<forall>r \<in> set first. r = recipe \<and> \<not> sentinel r"
    by (cases "sinkCalls st1 = sinkCalls st") auto
  show ?case
  proof (cases thrown)
    case (Some e)
    with s f show ?thesis by auto
  next
    case None
    from Cons.IH [of st1] obtain more where
      m: "sinkCalls (fst (saveAll pl createRecipe recipes sourceDesc st1)) = sinkCalls st1 @ more"
      "\<forall>r \<in> set more. r \<in> set recipes \<and> \<not> sentinel r"
      by blast
    with None s f have
      "sinkCalls (fst (saveAll pl createRecipe (recipe # recipes) sourceDesc st))
         = sinkCalls st @ (first @ more)"
      by simp
    moreover from f(2) m(2)
    have "\<forall>r \<in> set (first @ more). r \<in> set (recipe # recipes) \<and> \<not> sentinel r"
      by auto
    ultimately show ?thesis by blast
  qed
qed





section \<open>Claims about index.ts\<close>




end
